theory Spec2Isabelle
  imports Complex_Main "HOL-Library.Word"
begin

unbundle bit_operations_syntax

section \<open>Fix-quality mapping\<close>

text \<open>
  \<^verbatim>\<open>RTKNode::status_px4_to_ros\<close> (rtk_node.hpp, lines 53-63): a chain of
  equality tests on the receiver's fix-quality code, each returning the status
  of the outgoing position message. The argument is a C \<^verbatim>\<open>int\<close>; only equality
  with small constants is used, so it is modelled as an integer.
\<close>

definition status_px4_to_ros :: "int \<Rightarrow> int" where
  "status_px4_to_ros status =
     (if status = 0 then - 1
      else if status = 1 then - 1
      else if status = 2 then - 1
      else if status = 3 then 0
      else if status = 4 then 2
      else if status = 5 then 2
      else if status = 6 then 2
      else if status = 8 then 1
      else - 1)"

section \<open>Data model\<close>

type_synonym addr = nat
type_synonym byte = "8 word"

subsection \<open>The serial transport\<close>

text \<open>
  Modelled from the spec: the transport is the class \<^verbatim>\<open>serial::Serial\<close> of
  an external library, of which rtk_node.hpp has only the calls. The spec
  gives its interface: \<^verbatim>\<open>open()\<close>, \<^verbatim>\<open>isOpen() -> bool\<close>,
  \<^verbatim>\<open>setPort\<close>, \<^verbatim>\<open>setBaudrate\<close>,
  \<^verbatim>\<open>setBytesize/Parity/StopBits/FlowControl\<close>, \<^verbatim>\<open>available() -> count\<close>,
  \<^verbatim>\<open>waitReadable() -> bool\<close>, \<^verbatim>\<open>read(buffer, maxLen) -> count\<close>,
  \<^verbatim>\<open>write(buffer, len) -> count\<close>, \<^verbatim>\<open>setTimeout(value)\<close>, on "an opened,
  configured byte channel (baud-equivalent rate, frame shape, no flow control)
  with read/write/availability/wait-readable operations and a read timeout".
  The node holds a handle to it (a pointer, null until \<^verbatim>\<open>connect\<close>
  allocates one); the handle carries the configuration the setters store.
\<close>

datatype bytesize_t = fivebits | sixbits | sevenbits | eightbits
datatype parity_t = parity_none | parity_odd | parity_even | parity_mark | parity_space
datatype stopbits_t = stopbits_one | stopbits_two | stopbits_one_point_five
datatype flowcontrol_t = flowcontrol_none | flowcontrol_software | flowcontrol_hardware

record Serial =
  s_port :: string
  s_baudrate :: "32 word"
  s_bytesize :: bytesize_t
  s_parity :: parity_t
  s_stopbits :: stopbits_t
  s_flowcontrol :: flowcontrol_t
  s_timeout :: nat

text \<open>
  What can leave a function other than its result: the two classes of exception
  that \<^verbatim>\<open>connect\<close> distinguishes (\<^verbatim>\<open>serial::IOException\<close> and anything
  else, caught by \<^verbatim>\<open>catch (...)\<close>), the \<^verbatim>\<open>std::length_error\<close> of a vector
  asked for more than its maximal size, and the dereference of a pointer that
  is null or refers to no live object (the program has no defined behaviour
  from there on).
\<close>

datatype exn = IOException | Other_exception | Length_error | Invalid_pointer

text \<open>
  The device behind the handle is the environment. One call of \<^verbatim>\<open>open()\<close>
  either returns or throws, and leaves the port open or not; \<^verbatim>\<open>isOpen()\<close>
  reads that flag.
\<close>

datatype open_outcome = Open_returns bool | Open_throws exn bool

subsection \<open>Reports and messages\<close>

text \<open>
  Modelled from the spec: the report structures \<^verbatim>\<open>vehicle_gps_position_s\<close>,
  \<^verbatim>\<open>satellite_info_s\<close> and \<^verbatim>\<open>SurveyInStatus\<close> are declared in
  \<^verbatim>\<open>definitions.h\<close> and the driver headers, which rtk_node.hpp includes
  and which are missing. The spec's data model gives their content: a Position
  Report holds "latitude, longitude, altitude, horizontal/vertical dilution or
  error estimates, fix-quality code (receiver-native enumeration), heading,
  satellites-used count, timestamp"; Satellite Info holds the "count of visible
  satellites"; Survey-In Status holds "duration elapsed, mean accuracy, a flags
  field encoding valid (bit 0) and active (bit 1)". The fields carry the names
  under which rtk_node.hpp reads them. A measured quantity is modelled by its
  numeric value: the assignments of \<^verbatim>\<open>publishGPSPosition\<close> convert it to
  the \<^verbatim>\<open>float64\<close> of the message, which keeps the value.
\<close>

record vehicle_gps_position_s =
  timestamp :: nat
  lat :: real
  lon :: real
  alt :: real
  eph :: real
  epv :: real
  hdop :: real
  vdop :: real
  heading :: real
  fix_type :: "8 word"
  satellites_used :: "8 word"

record satellite_info_s =
  count :: "8 word"

record SurveyInStatus =
  duration :: "32 word"
  mean_accuracy :: "32 word"
  flags :: "8 word"

text \<open>
  The message \<^verbatim>\<open>sensor_msgs::NavSatFix\<close> of the publishing framework, with
  its header and its status flattened, and the two constants of it that
  \<^verbatim>\<open>publishGPSPosition\<close> uses.
\<close>

record NavSatFix =
  stamp :: nat
  frame_id :: string
  status :: int
  service :: nat
  latitude :: real
  longitude :: real
  altitude :: real
  position_covariance :: "real list"
  position_covariance_type :: nat

definition SERVICE_GPS :: nat where
  "SERVICE_GPS = 1"

definition COVARIANCE_TYPE_APPROXIMATED :: nat where
  "COVARIANCE_TYPE_APPROXIMATED = 1"

text \<open>A freshly constructed message: every numeric field is zero.\<close>

definition NavSatFix_init :: NavSatFix where
  "NavSatFix_init =
     \<lparr>stamp = 0, frame_id = [], status = 0, service = 0, latitude = 0,
      longitude = 0, altitude = 0, position_covariance = replicate 9 0,
      position_covariance_type = 0\<rparr>"

subsection \<open>Observable effects\<close>

text \<open>
  Every call that leaves the node is recorded, in program order, in a trace:
  the calls on the transport, the calls on the decoder, the log statements, the
  messages handed to the two publishers, and the writes of the public flag
  \<^verbatim>\<open>connected\<close>. A log line is the list of the pieces streamed into it. A
  \<open>Fault\<close> marks the point where the program leaves defined behaviour.
\<close>

datatype severity = DEBUG | INFO | WARN | FATAL

datatype log_part = Txt string | Num int | Val real

datatype serial_call =
    SetPort string
  | Open
  | IsOpen
  | SetBaudrate "32 word"
  | SetBytesize bytesize_t
  | SetParity parity_t
  | SetStopbits stopbits_t
  | SetFlowcontrol flowcontrol_t
  | SetTimeout nat
  | Available
  | WaitReadable
  | Read addr nat
  | Write "byte list"

datatype event =
    Serial_call serial_call
  | Configure "32 word"
  | Receive nat
  | Log severity "log_part list"
  | Log_throttle severity "log_part list"
  | Assign_connected bool
  | Publish_GPS NavSatFix
  | Publish_RTCM "byte list"
  | Fault exn

subsection \<open>The session\<close>

text \<open>
  The members of \<^verbatim>\<open>RTKNode\<close> that the modelled functions use (the flag
  \<^verbatim>\<open>connected\<close>, the rate and the port, the pointer to the survey-in status,
  the handle of the transport, the position report and the pointer to the
  satellite slot), followed by the environment they act on:
  \<^item> \<open>fresh_serial\<close>, the handle that \<^verbatim>\<open>new serial::Serial()\<close> yields;
  \<^item> the device: whether the port is open, how often \<^verbatim>\<open>open()\<close> has been
    called and how each call ends, the bytes received and those still to come,
    the room left for sending and the bytes sent;
  \<^item> the memory that the pointers of the decoder refer to: bytes, and
    survey-in status objects (no object where the map is undefined);
  \<^item> the clock that \<^verbatim>\<open>ros::Time::now()\<close> reads, and the trace.
\<close>

record session =
  connected :: bool
  baud :: "32 word"
  port :: string
  surveyInStatus :: addr
  serial :: "Serial option"
  reportGPSPos :: vehicle_gps_position_s
  pReportSatInfo :: "satellite_info_s option"
  fresh_serial :: Serial
  dev_open :: bool
  dev_opens :: nat
  dev_plan :: "nat \<Rightarrow> open_outcome"
  rx_ready :: "byte list"
  rx_later :: "byte list"
  rx_delay :: nat
  tx_room :: nat
  tx_sent :: "byte list"
  mem_bytes :: "addr \<Rightarrow> byte"
  mem_survey :: "addr \<Rightarrow> SurveyInStatus option"
  ros_time :: nat
  trace :: "event list"

definition emit :: "event \<Rightarrow> session \<Rightarrow> session" where
  "emit e st = st\<lparr>trace := trace st @ [e]\<rparr>"

definition ros_log :: "severity \<Rightarrow> log_part list \<Rightarrow> session \<Rightarrow> session" where
  "ros_log sev msg st = emit (Log sev msg) st"

definition set_connected :: "bool \<Rightarrow> session \<Rightarrow> session" where
  "set_connected b st = emit (Assign_connected b) (st\<lparr>connected := b\<rparr>)"

section \<open>Transport operations\<close>

text \<open>
  The setters store into the handle. \<^verbatim>\<open>open()\<close> consumes the next outcome
  of the device's plan: the call with number \<open>k\<close> (counted from 0 over the life
  of the device) ends as \<open>dev_plan st k\<close> says. It is the one call that
  \<^verbatim>\<open>connect\<close> guards against exceptions and the one that is modelled as able
  to throw; the other calls return what the interface gives them.
\<close>

definition with_serial :: "(Serial \<Rightarrow> Serial) \<Rightarrow> session \<Rightarrow> session" where
  "with_serial f st = st\<lparr>serial := map_option f (serial st)\<rparr>"

definition serial_setPort :: "string \<Rightarrow> session \<Rightarrow> session" where
  "serial_setPort p st =
     emit (Serial_call (SetPort p)) (with_serial (\<lambda>h. h\<lparr>s_port := p\<rparr>) st)"

definition serial_setBaudrate :: "32 word \<Rightarrow> session \<Rightarrow> session" where
  "serial_setBaudrate b st =
     emit (Serial_call (SetBaudrate b)) (with_serial (\<lambda>h. h\<lparr>s_baudrate := b\<rparr>) st)"

definition serial_setBytesize :: "bytesize_t \<Rightarrow> session \<Rightarrow> session" where
  "serial_setBytesize b st =
     emit (Serial_call (SetBytesize b)) (with_serial (\<lambda>h. h\<lparr>s_bytesize := b\<rparr>) st)"

definition serial_setParity :: "parity_t \<Rightarrow> session \<Rightarrow> session" where
  "serial_setParity p st =
     emit (Serial_call (SetParity p)) (with_serial (\<lambda>h. h\<lparr>s_parity := p\<rparr>) st)"

definition serial_setStopbits :: "stopbits_t \<Rightarrow> session \<Rightarrow> session" where
  "serial_setStopbits b st =
     emit (Serial_call (SetStopbits b)) (with_serial (\<lambda>h. h\<lparr>s_stopbits := b\<rparr>) st)"

definition serial_setFlowcontrol :: "flowcontrol_t \<Rightarrow> session \<Rightarrow> session" where
  "serial_setFlowcontrol f st =
     emit (Serial_call (SetFlowcontrol f)) (with_serial (\<lambda>h. h\<lparr>s_flowcontrol := f\<rparr>) st)"

text \<open>\<^verbatim>\<open>serial->setTimeout(serial::Timeout::simpleTimeout(t))\<close>.\<close>

definition serial_setTimeout :: "nat \<Rightarrow> session \<Rightarrow> session" where
  "serial_setTimeout t st =
     emit (Serial_call (SetTimeout t)) (with_serial (\<lambda>h. h\<lparr>s_timeout := t\<rparr>) st)"

definition serial_open :: "session \<Rightarrow> exn option \<times> session" where
  "serial_open st =
     (let st1 = emit (Serial_call Open) (st\<lparr>dev_opens := Suc (dev_opens st)\<rparr>)
      in case dev_plan st (dev_opens st) of
           Open_returns b \<Rightarrow> (None, st1\<lparr>dev_open := b\<rparr>)
         | Open_throws e b \<Rightarrow> (Some e, st1\<lparr>dev_open := b\<rparr>))"

definition serial_isOpen :: "session \<Rightarrow> bool \<times> session" where
  "serial_isOpen st = (dev_open st, emit (Serial_call IsOpen) st)"

section \<open>Connecting\<close>

text \<open>
  The retry loop of \<^verbatim>\<open>RTKNode::connect\<close> (lines 80-98), with its counter
  \<^verbatim>\<open>tries\<close>. The \<^verbatim>\<open>try\<close> block swallows an \<^verbatim>\<open>IOException\<close> silently and
  logs any other exception at fatal severity; in both cases execution goes on
  with the test of \<^verbatim>\<open>isOpen()\<close>.
\<close>

function connect_loop :: "int \<Rightarrow> session \<Rightarrow> session" where
  "connect_loop tries st =
     (if tries < 5 then
        (let st1 = ros_log DEBUG [Txt ''Trying to connect to the serial port''] st;
             (thrown, st2) = serial_open st1;
             st3 = (case thrown of
                      None \<Rightarrow> st2
                    | Some IOException \<Rightarrow> st2
                    | Some _ \<Rightarrow> ros_log FATAL [Txt ''Other serial port exception''] st2);
             (opened, st4) = serial_isOpen st3
         in if opened
            then serial_setTimeout 500 (set_connected True st4)
            else connect_loop (tries + 1)
                   (ros_log INFO [Txt ''Bad Connection with serial port Error '', Txt (port st4)]
                      (set_connected False st4)))
      else st)"
  by pat_completeness auto
termination
  by (relation "measure (\<lambda>(tries, st). nat (5 - tries))") auto

declare connect_loop.simps [simp del]

text \<open>
  \<^verbatim>\<open>RTKNode::connect\<close> (lines 65-99). The first \<^verbatim>\<open>serial->open()\<close> (line 69)
  stands outside every \<^verbatim>\<open>try\<close> block: what it throws leaves \<^verbatim>\<open>connect\<close>. The
  result is the exception that left the function, if any, and the session as
  the call left it.
\<close>

definition connect :: "session \<Rightarrow> exn option \<times> session" where
  "connect st =
     (let st1 = (if serial st = None then st\<lparr>serial := Some (fresh_serial st)\<rparr> else st);
          st2 = serial_setPort (port st1) st1;
          (thrown, st3) = serial_open st2
      in case thrown of
           Some e \<Rightarrow> (Some e, st3)
         | None \<Rightarrow>
             (let (opened, st4) = serial_isOpen st3
              in if \<not> opened
                 then (None, ros_log WARN [Txt ''GPS: Failed to open Serial Device: '', Txt (port st4)] st4)
                 else (None,
                       connect_loop 0
                         (serial_setFlowcontrol flowcontrol_none
                           (serial_setStopbits stopbits_one
                             (serial_setParity parity_none
                               (serial_setBytesize eightbits
                                 (serial_setBaudrate (baud st4) st4))))))))"

section \<open>Reading and writing bytes\<close>

text \<open>
  The conversions that the calls on the transport make implicitly: an
  \<^verbatim>\<open>int\<close> passed where a \<^verbatim>\<open>size_t\<close> (64 bits) or a \<^verbatim>\<open>uint32_t\<close> is
  expected, and a \<^verbatim>\<open>size_t\<close> narrowed to \<^verbatim>\<open>int\<close> (32 bits, two's
  complement).
\<close>

definition to_size_t :: "int \<Rightarrow> nat" where
  "to_size_t i = nat (i mod 2 ^ 64)"

definition to_int :: "nat \<Rightarrow> int" where
  "to_int n = (let m = int n mod 2 ^ 32 in if m < 2 ^ 31 then m else m - 2 ^ 32)"

definition to_uint32 :: "int \<Rightarrow> 32 word" where
  "to_uint32 i = word_of_int i"

text \<open>Memory is byte addressed; an \<^verbatim>\<open>int\<close> is read least significant byte first.\<close>

definition load_bytes :: "(addr \<Rightarrow> byte) \<Rightarrow> addr \<Rightarrow> nat \<Rightarrow> byte list" where
  "load_bytes m p n = map m [p ..< p + n]"

definition store_bytes :: "addr \<Rightarrow> byte list \<Rightarrow> (addr \<Rightarrow> byte) \<Rightarrow> (addr \<Rightarrow> byte)" where
  "store_bytes p bs m = (\<lambda>a. if p \<le> a \<and> a < p + length bs then bs ! (a - p) else m a)"

definition load_int :: "(addr \<Rightarrow> byte) \<Rightarrow> addr \<Rightarrow> int" where
  "load_int m p =
     to_int (unat (m p) + 2 ^ 8 * unat (m (p + 1)) + 2 ^ 16 * unat (m (p + 2)) +
             2 ^ 24 * unat (m (p + 3)))"

text \<open>
  Modelled from the spec: the device behind the transport (see the interface
  above). On the receiving side \<open>rx_ready\<close> holds the bytes that have
  arrived, \<open>rx_later\<close> those that arrive \<open>rx_delay\<close> time units from now (none
  if it is empty). Waiting for at most \<open>t\<close> time units succeeds at once when
  bytes are ready, succeeds after \<open>rx_delay\<close> when the next bytes arrive in
  time, and fails after \<open>t\<close> otherwise. \<^verbatim>\<open>Serial::waitReadable()\<close> takes no
  argument: it waits for the read timeout stored in the handle.
\<close>

definition serial_available :: "session \<Rightarrow> nat \<times> session" where
  "serial_available st = (length (rx_ready st), emit (Serial_call Available) st)"

definition wait_readable_for :: "nat \<Rightarrow> session \<Rightarrow> bool \<times> session" where
  "wait_readable_for t st =
     (if rx_ready st \<noteq> [] then (True, st)
      else if rx_later st \<noteq> [] \<and> rx_delay st \<le> t
      then (True, st\<lparr>rx_ready := rx_later st, rx_later := [], rx_delay := 0,
                      ros_time := ros_time st + rx_delay st\<rparr>)
      else (False, st\<lparr>rx_delay := rx_delay st - t, ros_time := ros_time st + t\<rparr>))"

definition serial_waitReadable :: "Serial \<Rightarrow> session \<Rightarrow> bool \<times> session" where
  "serial_waitReadable h st =
     wait_readable_for (s_timeout h) (emit (Serial_call WaitReadable) st)"

definition serial_read :: "addr \<Rightarrow> nat \<Rightarrow> session \<Rightarrow> nat \<times> session" where
  "serial_read buffer len st =
     (let bs = take len (rx_ready st)
      in (length bs,
          emit (Serial_call (Read buffer len))
            (st\<lparr>rx_ready := drop len (rx_ready st),
                mem_bytes := store_bytes buffer bs (mem_bytes st)\<rparr>)))"

text \<open>The sending side accepts at most \<open>tx_room\<close> bytes.\<close>

definition serial_write :: "byte list \<Rightarrow> session \<Rightarrow> nat \<times> session" where
  "serial_write bs st =
     (let n = min (length bs) (tx_room st)
      in (n,
          emit (Serial_call (Write bs))
            (st\<lparr>tx_sent := tx_sent st @ take n bs, tx_room := tx_room st - n\<rparr>)))"

section \<open>Publishers\<close>

text \<open>\<^verbatim>\<open>RTKNode::publishGPSPosition\<close> (lines 140-162).\<close>

definition publishGPSPosition :: "session \<Rightarrow> session" where
  "publishGPSPosition st =
     (let r = reportGPSPos st;
          msg = NavSatFix_init;
          msg = msg\<lparr>stamp := ros_time st\<rparr>;
          msg = msg\<lparr>frame_id := ''rtk_base''\<rparr>;
          msg = msg\<lparr>altitude := alt r\<rparr>;
          msg = msg\<lparr>longitude := lon r\<rparr>;
          msg = msg\<lparr>latitude := lat r\<rparr>;
          msg = msg\<lparr>status := status_px4_to_ros (uint (fix_type r))\<rparr>;
          msg = msg\<lparr>service := SERVICE_GPS\<rparr>;
          msg = msg\<lparr>position_covariance := (position_covariance msg)[0 := eph r]\<rparr>;
          msg = msg\<lparr>position_covariance := (position_covariance msg)[4 := eph r]\<rparr>;
          msg = msg\<lparr>position_covariance := (position_covariance msg)[8 := epv r]\<rparr>;
          msg = msg\<lparr>position_covariance_type := COVARIANCE_TYPE_APPROXIMATED\<rparr>;
          st1 = ros_log DEBUG
                  [Txt ''** Publish pose **'',
                   Txt ''altitude: '', Val (alt r),
                   Txt ''fix type: '', Num (uint (fix_type r)),
                   Txt ''HDOP: '', Val (hdop r), Txt '' VDOP'', Val (vdop r),
                   Txt ''lat: '', Val (lat r), Txt '' lon:'', Val (lon r),
                   Txt ''heading: '', Val (heading r),
                   Txt ''sat used: '', Num (uint (satellites_used r))] st
      in emit (Publish_GPS msg) st1)"

text \<open>
  \<^verbatim>\<open>RTKNode::publishGPSSatellite\<close> (lines 164-167) reads the count through
  \<^verbatim>\<open>pReportSatInfo\<close> and hands it to a throttled log statement, the only one
  of the file; whether the throttle lets the line through is not modelled.
\<close>

definition publishGPSSatellite :: "session \<Rightarrow> session" where
  "publishGPSSatellite st =
     (case pReportSatInfo st of
        None \<Rightarrow> emit (Fault Invalid_pointer) st
      | Some info \<Rightarrow>
          emit (Log_throttle WARN
                  [Txt ''I see '', Num (uint (count info)), Txt '' sattelites'']) st)"

section \<open>The callback bridge\<close>

text \<open>
  Modelled from the spec: the enumeration \<^verbatim>\<open>GPSCallbackType\<close> is declared
  in a header of the driver that is missing. The spec lists the kinds:
  read-device-data, write-device-data, set-baud-rate, correction-message-ready,
  survey-in-status, set-clock, and any unrecognized kind. The constructors
  carry the names that the \<^verbatim>\<open>case\<close> labels of \<^verbatim>\<open>RTKNode::callback\<close> use;
  any other value reaches the \<^verbatim>\<open>default\<close> branch.
\<close>

datatype GPSCallbackType =
    GPSCallbackType_readDeviceData
  | GPSCallbackType_writeDeviceData
  | GPSCallbackType_setBaudrate
  | GPSCallbackType_gotRTCMMessage
  | GPSCallbackType_surveyInStatus
  | GPSCallbackType_setClock
  | GPSCallbackType_other int

text \<open>
  \<^verbatim>\<open>RTKNode::gotRTCMData\<close> (lines 187-193): the vector of the message is
  resized to \<open>len\<close> and then assigned the \<open>len\<close> bytes that start at \<open>data\<close>. A
  length beyond the maximal size of a byte vector makes \<^verbatim>\<open>resize\<close> throw.
\<close>

definition vector_max_size :: nat where
  "vector_max_size = 2 ^ 63 - 1"

definition gotRTCMData :: "addr \<Rightarrow> nat \<Rightarrow> session \<Rightarrow> exn option \<times> session" where
  "gotRTCMData data len st =
     (if vector_max_size < len then (Some Length_error, st)
      else (let msg_data = replicate len (0 :: byte);
                msg_data = load_bytes (mem_bytes st) data len;
                st1 = emit (Publish_RTCM msg_data) st
            in (None, ros_log WARN [Txt ''Publish RTCM''] st1)))"

text \<open>
  \<^verbatim>\<open>RTKNode::callback\<close> (lines 195-250). \<open>data1\<close> is a pointer (an address, 0
  for the null pointer), \<open>data2\<close> an \<^verbatim>\<open>int\<close>. The result is the value
  returned, or what ended the call instead, and the session afterwards. Log
  statements count as executed whatever the logging level.
\<close>

definition callback ::
    "GPSCallbackType \<Rightarrow> addr \<Rightarrow> int \<Rightarrow> session \<Rightarrow> (exn + int) \<times> session" where
  "callback type data1 data2 st =
     (case type of
        GPSCallbackType_readDeviceData \<Rightarrow>
          (let st1 = ros_log DEBUG [Txt ''Read more data''] st
           in case serial st1 of
                None \<Rightarrow> (Inl Invalid_pointer, st1)
              | Some h \<Rightarrow>
                  (let (avail, st2) = serial_available st1
                   in if avail = 0
                      then (let timeout = load_int (mem_bytes st2) data1;
                                (readable, st3) = serial_waitReadable h st2
                            in if \<not> readable then (Inr 0, st3)
                               else (let (n, st4) = serial_read data1 (to_size_t data2) st3
                                     in (Inr (to_int n), st4)))
                      else (let (n, st3) = serial_read data1 (to_size_t data2) st2
                            in (Inr (to_int n), st3))))
      | GPSCallbackType_writeDeviceData \<Rightarrow>
          (let st1 = ros_log DEBUG [Txt ''Write device data''] st
           in case serial st1 of
                None \<Rightarrow> (Inl Invalid_pointer, st1)
              | Some h \<Rightarrow>
                  (let (written, st2) =
                         serial_write (load_bytes (mem_bytes st1) data1 (to_size_t data2)) st1;
                       bytes_written = to_int written
                   in if bytes_written = data2 then (Inr data2, st2) else (Inr (- 1), st2)))
      | GPSCallbackType_setBaudrate \<Rightarrow>
          (let st1 = ros_log DEBUG [Txt ''Set baudrate''] st
           in case serial st1 of
                None \<Rightarrow> (Inl Invalid_pointer, st1)
              | Some h \<Rightarrow> (Inr 1, serial_setBaudrate (to_uint32 data2) st1))
      | GPSCallbackType_gotRTCMMessage \<Rightarrow>
          (let st1 = ros_log FATAL [Txt ''RTCM''] st;
               (thrown, st2) = gotRTCMData data1 (to_size_t data2) st1
           in case thrown of Some e \<Rightarrow> (Inl e, st2) | None \<Rightarrow> (Inr 0, st2))
      | GPSCallbackType_surveyInStatus \<Rightarrow>
          (let st1 = ros_log DEBUG [Txt ''Survey''] st;
               st2 = st1\<lparr>surveyInStatus := data1\<rparr>
           in case mem_survey st2 (surveyInStatus st2) of
                None \<Rightarrow> (Inl Invalid_pointer, st2)
              | Some s \<Rightarrow>
                  (Inr 0,
                   ros_log DEBUG
                     [Txt ''Survey-in status: '', Num (uint (duration s)),
                      Txt '' cur accuracy: '', Num (uint (mean_accuracy s)),
                      Txt '' valid:'', Num (uint (flags s AND 1)),
                      Txt '' active: '', Num (uint (drop_bit 1 (flags s) AND 1))] st2))
      | GPSCallbackType_setClock \<Rightarrow> (Inr 0, ros_log DEBUG [Txt ''Set clock''] st)
      | GPSCallbackType_other k \<Rightarrow> (Inr 0, ros_log FATAL [Txt ''Do nothing? '', Num k] st))"

text \<open>
  The survey-in status as the session holds it: the object its pointer refers
  to, if there is one.
\<close>

definition current_surveyInStatus :: "session \<Rightarrow> SurveyInStatus option" where
  "current_surveyInStatus st = mem_survey st (surveyInStatus st)"

section \<open>The session loop\<close>

text \<open>
  Modelled from the spec: the decoder (\<^verbatim>\<open>gpsDriver\<close>) is an external
  collaborator with the interface \<^verbatim>\<open>configure(rate, mode) -> status\<close> and
  \<^verbatim>\<open>receive(timeout) -> signed result (bitmask or <= 0)\<close>; it writes the
  decoded reports into the slots that the node hands it. It is the environment
  of \<^verbatim>\<open>RTKNode::run\<close>. One turn of the loop
  sees a value of \<^verbatim>\<open>ros::ok()\<close> and, if it gets that far, one call of
  \<^verbatim>\<open>gpsDriver->receive(100)\<close>: its result, the reports the decoder wrote
  into the two slots it was given, and the time the call took. The callbacks
  that the decoder makes during the call are not part of a turn; they are
  modelled on their own above.
\<close>

record iteration =
  ros_ok :: bool
  helperRet :: int
  wrote_position :: "vehicle_gps_position_s option"
  wrote_satellites :: "satellite_info_s option"
  elapsed :: nat

definition gpsDriver_receive :: "nat \<Rightarrow> iteration \<Rightarrow> session \<Rightarrow> int \<times> session" where
  "gpsDriver_receive timeout it st =
     (helperRet it,
      emit (Receive timeout)
        (st\<lparr>reportGPSPos :=
               (case wrote_position it of None \<Rightarrow> reportGPSPos st | Some r \<Rightarrow> r),
            pReportSatInfo :=
               (case pReportSatInfo st of
                  None \<Rightarrow> None
                | Some old \<Rightarrow>
                    (case wrote_satellites it of None \<Rightarrow> Some old | Some i \<Rightarrow> Some i)),
            ros_time := ros_time st + elapsed it\<rparr>))"

text \<open>
  The body of the \<^verbatim>\<open>while\<close> loop (lines 112-129), from the counter
  \<^verbatim>\<open>numTries\<close> and the session before to those after.
\<close>

definition loop_body :: "iteration \<Rightarrow> int \<times> session \<Rightarrow> int \<times> session" where
  "loop_body it = (\<lambda>(numTries, st).
     (let (helperRet, st1) = gpsDriver_receive 100 it st;
          st2 = ros_log DEBUG [Txt ''Reading data''] st1
      in if helperRet > 0
         then (let numTries = 0;
                   (numTries, st3) =
                      (if helperRet AND 1 \<noteq> 0
                       then (0, publishGPSPosition st2)
                       else (numTries, st2));
                   (numTries, st4) =
                      (if pReportSatInfo st3 \<noteq> None \<and> helperRet AND 2 \<noteq> 0
                       then (0, publishGPSSatellite st3)
                       else (numTries, st3))
               in (numTries, st4))
         else (numTries + 1, st2)))"

text \<open>
  The loop itself. It may run for ever; the model runs it against a finite
  script of turns and says whether the loop ended within the script or was
  still running when the script ran out.
\<close>

datatype 'a loop_result = Finished 'a | Out_of_script 'a

fun run_loop :: "iteration list \<Rightarrow> int \<Rightarrow> session \<Rightarrow> (int \<times> session) loop_result" where
  "run_loop [] numTries st =
     (if numTries < 3 then Out_of_script (numTries, st) else Finished (numTries, st))"
| "run_loop (it # its) numTries st =
     (if ros_ok it \<and> numTries < 3
      then (case loop_body it (numTries, st) of (numTries', st') \<Rightarrow> run_loop its numTries' st')
      else Finished (numTries, st))"

definition zero_report :: vehicle_gps_position_s where
  "zero_report =
     \<lparr>timestamp = 0, lat = 0, lon = 0, alt = 0, eph = 0, epv = 0, hdop = 0, vdop = 0,
      heading = 0, fix_type = 0, satellites_used = 0\<rparr>"

text \<open>
  \<^verbatim>\<open>RTKNode::run\<close> (lines 101-138); \<open>configured\<close> is the result of
  \<^verbatim>\<open>gpsDriver->configure\<close>.
\<close>

definition run :: "int \<Rightarrow> iteration list \<Rightarrow> session \<Rightarrow> session loop_result" where
  "run configured script st =
     (let st1 = emit (Configure (baud st)) st
      in if configured = 0
         then (let st2 = ros_log INFO [Txt ''Configured''] st1;
                   st3 = st2\<lparr>reportGPSPos := zero_report\<rparr>
               in case run_loop script 0 st3 of
                    Finished (numTries, st4) \<Rightarrow>
                      Finished (ros_log WARN [Txt ''End of running''] st4)
                  | Out_of_script (numTries, st4) \<Rightarrow> Out_of_script st4)
         else Finished (ros_log WARN [Txt ''End of running''] st1))"

section \<open>Observations\<close>

text \<open>
  What a call added to the trace, and the parts of a trace that the properties
  below speak about.
\<close>

definition events_since :: "session \<Rightarrow> session \<Rightarrow> event list" where
  "events_since st st' = drop (length (trace st)) (trace st')"

fun gps_messages :: "event list \<Rightarrow> NavSatFix list" where
  "gps_messages [] = []"
| "gps_messages (Publish_GPS m # es) = m # gps_messages es"
| "gps_messages (e # es) = gps_messages es"

fun rtcm_messages :: "event list \<Rightarrow> byte list list" where
  "rtcm_messages [] = []"
| "rtcm_messages (Publish_RTCM bs # es) = bs # rtcm_messages es"
| "rtcm_messages (e # es) = rtcm_messages es"

fun satellite_reports :: "event list \<Rightarrow> log_part list list" where
  "satellite_reports [] = []"
| "satellite_reports (Log_throttle sev msg # es) = msg # satellite_reports es"
| "satellite_reports (e # es) = satellite_reports es"

fun receive_calls :: "event list \<Rightarrow> nat" where
  "receive_calls [] = 0"
| "receive_calls (Receive t # es) = Suc (receive_calls es)"
| "receive_calls (e # es) = receive_calls es"

fun open_calls :: "event list \<Rightarrow> nat" where
  "open_calls [] = 0"
| "open_calls (Serial_call Open # es) = Suc (open_calls es)"
| "open_calls (e # es) = open_calls es"

text \<open>
  The calls that configure the frame shape and the read timeout, the four shape
  calls of \<^verbatim>\<open>connect\<close> in their order, the events before the flag
  \<^verbatim>\<open>connected\<close> is first set, and the events after the last call of
  \<^verbatim>\<open>open()\<close>.
\<close>

fun is_config_call :: "event \<Rightarrow> bool" where
  "is_config_call (Serial_call (SetBytesize _)) = True"
| "is_config_call (Serial_call (SetParity _)) = True"
| "is_config_call (Serial_call (SetStopbits _)) = True"
| "is_config_call (Serial_call (SetFlowcontrol _)) = True"
| "is_config_call (Serial_call (SetTimeout _)) = True"
| "is_config_call _ = False"

definition shape_calls :: "event list" where
  "shape_calls =
     [Serial_call (SetBytesize eightbits), Serial_call (SetParity parity_none),
      Serial_call (SetStopbits stopbits_one), Serial_call (SetFlowcontrol flowcontrol_none)]"

definition before_connected :: "event list \<Rightarrow> event list" where
  "before_connected evs = takeWhile (\<lambda>e. e \<noteq> Assign_connected True) evs"

definition after_last_open :: "event list \<Rightarrow> event list" where
  "after_last_open evs = rev (takeWhile (\<lambda>e. e \<noteq> Serial_call Open) (rev evs))"

text \<open>
  The failed attempts of the retry loop (each ends with the assignment
  \<^verbatim>\<open>connected = false\<close>), and the events that follow the \<open>n\<close>-th of them.
\<close>

definition failed_attempts :: "event list \<Rightarrow> nat" where
  "failed_attempts evs = length (filter (\<lambda>e. e = Assign_connected False) evs)"

fun after_failures :: "nat \<Rightarrow> event list \<Rightarrow> event list" where
  "after_failures 0 evs = evs"
| "after_failures (Suc n) [] = []"
| "after_failures (Suc n) (e # es) =
     (if e = Assign_connected False then after_failures n es else after_failures (Suc n) es)"

text \<open>The slots of a covariance array that hold a value other than zero.\<close>

definition filled_slots :: "real list \<Rightarrow> nat list" where
  "filled_slots c = filter (\<lambda>i. c ! i \<noteq> 0) [0 ..< length c]"

text \<open>
  The reports as one call of \<^verbatim>\<open>receive\<close> leaves them, and the two things the
  publishers hand on: the position message for a report published at a given
  time, and the line about the satellites.
\<close>

definition report_after :: "iteration \<Rightarrow> session \<Rightarrow> vehicle_gps_position_s" where
  "report_after it st = (case wrote_position it of None \<Rightarrow> reportGPSPos st | Some r \<Rightarrow> r)"

definition satellites_after :: "iteration \<Rightarrow> session \<Rightarrow> satellite_info_s option" where
  "satellites_after it st =
     (case pReportSatInfo st of
        None \<Rightarrow> None
      | Some old \<Rightarrow> (case wrote_satellites it of None \<Rightarrow> Some old | Some i \<Rightarrow> Some i))"

definition position_message :: "nat \<Rightarrow> vehicle_gps_position_s \<Rightarrow> NavSatFix" where
  "position_message now r =
     \<lparr>stamp = now, frame_id = ''rtk_base'', status = status_px4_to_ros (uint (fix_type r)),
      service = SERVICE_GPS, latitude = lat r, longitude = lon r, altitude = alt r,
      position_covariance = [eph r, 0, 0, 0, eph r, 0, 0, 0, epv r],
      position_covariance_type = COVARIANCE_TYPE_APPROXIMATED\<rparr>"

definition satellite_message :: "satellite_info_s \<Rightarrow> log_part list" where
  "satellite_message info = [Txt ''I see '', Num (uint (count info)), Txt '' sattelites'']"

section \<open>Sessions and devices to run the model on\<close>

text \<open>
  The handle that \<^verbatim>\<open>new serial::Serial()\<close> yields, with the default arguments
  of the library's constructor, and the node as the constructor of
  \<^verbatim>\<open>RTKNode\<close> (lines 26-37) leaves it: not connected, no transport handle, a
  zeroed survey-in status (at address 1) and satellite slot of its own. The
  device is idle but for its plan of \<^verbatim>\<open>open()\<close> outcomes.
\<close>

definition default_Serial :: Serial where
  "default_Serial =
     \<lparr>s_port = [], s_baudrate = 9600, s_bytesize = eightbits, s_parity = parity_none,
      s_stopbits = stopbits_one, s_flowcontrol = flowcontrol_none, s_timeout = 0\<rparr>"

definition RTKNode :: "32 word \<Rightarrow> string \<Rightarrow> (nat \<Rightarrow> open_outcome) \<Rightarrow> session" where
  "RTKNode b p plan =
     \<lparr>connected = False, baud = b, port = p, surveyInStatus = 1, serial = None,
      reportGPSPos = zero_report, pReportSatInfo = Some \<lparr>count = 0\<rparr>,
      fresh_serial = default_Serial, dev_open = False, dev_opens = 0, dev_plan = plan,
      rx_ready = [], rx_later = [], rx_delay = 0, tx_room = 0, tx_sent = [],
      mem_bytes = (\<lambda>a. 0),
      mem_survey = [1 \<mapsto> \<lparr>duration = 0, mean_accuracy = 0, flags = 0\<rparr>],
      ros_time = 0, trace = []\<rparr>"

text \<open>
  Four devices. A good port opens at the first call and, like the library,
  answers every further \<^verbatim>\<open>open()\<close> with an exception that is not an
  \<^verbatim>\<open>IOException\<close> (the port is open already). A lost port opens once and is
  found closed ever after. An absent port makes \<^verbatim>\<open>open()\<close> throw an
  \<^verbatim>\<open>IOException\<close>; a silent one makes it return without opening.
\<close>

definition good_port :: "nat \<Rightarrow> open_outcome" where
  "good_port k = (if k = 0 then Open_returns True else Open_throws Other_exception True)"

definition lost_port :: "nat \<Rightarrow> open_outcome" where
  "lost_port k = Open_returns (k = 0)"

definition absent_port :: "nat \<Rightarrow> open_outcome" where
  "absent_port k = Open_throws IOException False"

definition silent_port :: "nat \<Rightarrow> open_outcome" where
  "silent_port k = Open_returns False"

text \<open>A turn of the session loop in which the decoder writes nothing.\<close>

definition turn :: "bool \<Rightarrow> int \<Rightarrow> iteration" where
  "turn ok r =
     \<lparr>ros_ok = ok, helperRet = r, wrote_position = None, wrote_satellites = None, elapsed = 0\<rparr>"

text \<open>
  Sessions for the callbacks. In the first two the handle has the read timeout
  of 500 that \<^verbatim>\<open>connect\<close> sets, no byte is ready, three bytes are on their
  way, and the decoder's buffer at address 16 starts with the timeout it asks
  for: 100 with the bytes 300 away, 1000 with the bytes 700 away.
\<close>

definition waits_too_long :: session where
  "waits_too_long =
     (RTKNode 38400 ''X'' good_port)
       \<lparr>serial := Some (default_Serial\<lparr>s_timeout := 500\<rparr>),
        rx_later := [181, 98, 1], rx_delay := 300,
        mem_bytes := store_bytes 16 [100, 0, 0, 0] (\<lambda>a. 0)\<rparr>"

definition gives_up_early :: session where
  "gives_up_early =
     (RTKNode 38400 ''X'' good_port)
       \<lparr>serial := Some (default_Serial\<lparr>s_timeout := 500\<rparr>),
        rx_later := [181, 98, 1], rx_delay := 700,
        mem_bytes := store_bytes 16 [232, 3, 0, 0] (\<lambda>a. 0)\<rparr>"

text \<open>A device that accepts two more bytes, and three bytes to send at address 16.\<close>

definition write_example :: session where
  "write_example =
     (RTKNode 38400 ''X'' good_port)
       \<lparr>serial := Some default_Serial, tx_room := 2,
        mem_bytes := store_bytes 16 [181, 98, 6] (\<lambda>a. 0)\<rparr>"

text \<open>Four bytes of a correction message in the decoder's buffer at address 32.\<close>

definition rtcm_example :: session where
  "rtcm_example =
     (RTKNode 38400 ''X'' good_port)\<lparr>mem_bytes := store_bytes 32 [211, 0, 19, 62] (\<lambda>a. 0)\<rparr>"

text \<open>A survey-in status of the decoder at address 7, beside the node's own at 1.\<close>

definition survey_example :: session where
  "survey_example =
     (RTKNode 38400 ''X'' good_port)
       \<lparr>mem_survey := [1 \<mapsto> \<lparr>duration = 0, mean_accuracy = 0, flags = 0\<rparr>,
                       7 \<mapsto> \<lparr>duration = 10, mean_accuracy = 5, flags = 3\<rparr>]\<rparr>"

text \<open>A position report decoded at time 5 and published at time 9.\<close>

definition position_example :: session where
  "position_example =
     (RTKNode 38400 ''X'' good_port)
       \<lparr>reportGPSPos :=
          \<lparr>timestamp = 5, lat = 473977418, lon = 85455938, alt = 488000, eph = 1, epv = 2,
           hdop = 0, vdop = 0, heading = 0, fix_type = 3, satellites_used = 9\<rparr>,
        ros_time := 9\<rparr>"

section \<open>The retry loop, one attempt at a time\<close>

text \<open>
  One attempt of the retry loop up to its test of \<^verbatim>\<open>isOpen()\<close>, the two ways
  the loop can end, and the session on which the loop starts when the first
  \<^verbatim>\<open>open()\<close> of \<^verbatim>\<open>connect\<close> has opened the port.
\<close>

definition try_open :: "session \<Rightarrow> bool \<times> session" where
  "try_open st =
     (let st1 = ros_log DEBUG [Txt ''Trying to connect to the serial port''] st;
          (thrown, st2) = serial_open st1;
          st3 = (case thrown of
                   None \<Rightarrow> st2
                 | Some IOException \<Rightarrow> st2
                 | Some _ \<Rightarrow> ros_log FATAL [Txt ''Other serial port exception''] st2)
      in serial_isOpen st3)"

definition loop_connected :: "event list \<Rightarrow> session \<Rightarrow> session \<Rightarrow> bool" where
  "loop_connected mid st st' \<longleftrightarrow>
     trace st' = trace st @ mid @ [Assign_connected True, Serial_call (SetTimeout 500)] \<and>
     connected st' \<and> dev_open st' \<and>
     serial st' = map_option (\<lambda>h. h\<lparr>s_timeout := 500\<rparr>) (serial st)"

definition loop_gave_up :: "event list \<Rightarrow> session \<Rightarrow> session \<Rightarrow> bool" where
  "loop_gave_up mid st st' \<longleftrightarrow>
     trace st' = trace st @ mid \<and> \<not> connected st' \<and> \<not> dev_open st' \<and> serial st' = serial st"

definition handle0 :: "session \<Rightarrow> Serial" where
  "handle0 st = (case serial st of None \<Rightarrow> fresh_serial st | Some h \<Rightarrow> h)"

definition loop_start :: "session \<Rightarrow> session" where
  "loop_start st =
     st\<lparr>dev_opens := Suc (dev_opens st), dev_open := True,
        serial := Some ((handle0 st)\<lparr>s_port := port st, s_baudrate := baud st,
                      s_bytesize := eightbits, s_parity := parity_none,
                      s_stopbits := stopbits_one, s_flowcontrol := flowcontrol_none\<rparr>),
        trace := trace st @ [Serial_call (SetPort (port st)), Serial_call Open, Serial_call IsOpen,
                  Serial_call (SetBaudrate (baud st))] @ shape_calls\<rparr>"

section \<open>The fix-quality mapping is the table of the specification\<close>

text \<open>
  C4. For every integer fix-quality code: the codes 0, 1 and 2 map to "no fix"
  (-1), the code 3 maps to "fix" (0), the codes 4, 5 and 6 map to "augmented
  fix" (2), the code 8 maps to "dead-reckoning" (1), and every other integer
  maps to "no fix" (-1).
\<close>

theorem status_px4_to_ros_table:
  "status_px4_to_ros c =
     (if c \<in> {0, 1, 2} then - 1
      else if c = 3 then 0
      else if c \<in> {4, 5, 6} then 2
      else if c = 8 then 1
      else - 1)"
  by (simp add: status_px4_to_ros_def)

theorem status_px4_to_ros_table_witness:
  "status_px4_to_ros 0 = - 1 \<and> status_px4_to_ros 2 = - 1 \<and> status_px4_to_ros 3 = 0 \<and>
   status_px4_to_ros 5 = 2 \<and> status_px4_to_ros 8 = 1 \<and> status_px4_to_ros 7 = - 1 \<and>
   status_px4_to_ros (- 4) = - 1"
  using status_px4_to_ros_table [of 0] status_px4_to_ros_table [of 2]
    status_px4_to_ros_table [of 3] status_px4_to_ros_table [of 5]
    status_px4_to_ros_table [of 8] status_px4_to_ros_table [of 7]
    status_px4_to_ros_table [of "- 4"]
  by simp

section \<open>The position message\<close>

lemma gps_messages_append: "gps_messages (xs @ ys) = gps_messages xs @ gps_messages ys"
  by (induction xs rule: gps_messages.induct) simp_all

lemma satellite_reports_append:
  "satellite_reports (xs @ ys) = satellite_reports xs @ satellite_reports ys"
  by (induction xs rule: satellite_reports.induct) simp_all

lemma receive_calls_append: "receive_calls (xs @ ys) = receive_calls xs + receive_calls ys"
  by (induction xs rule: receive_calls.induct) simp_all

lemma rtcm_messages_append: "rtcm_messages (xs @ ys) = rtcm_messages xs @ rtcm_messages ys"
  by (induction xs rule: rtcm_messages.induct) simp_all

lemma replicate_9: "replicate 9 (x::real) = [x, x, x, x, x, x, x, x, x]"
  by (simp add: numeral_eq_Suc)

lemma publishGPSPosition_publishes:
  "gps_messages (trace (publishGPSPosition st)) =
     gps_messages (trace st) @ [position_message (ros_time st) (reportGPSPos st)]"
  by (simp add: publishGPSPosition_def position_message_def NavSatFix_init_def Let_def
      ros_log_def emit_def replicate_9 gps_messages_append)

text \<open>
  C10, as amended. Every position event published by the Position Publisher
  carries the current report's latitude, longitude and altitude, places the
  horizontal error estimate into the diagonal slots 0 and 4 and the vertical
  error estimate into the diagonal slot 8 of an otherwise zeroed covariance
  array of nine slots (three diagonal slots, not two) tagged as approximated,
  and carries the time of the clock at the call of the publisher, whatever time
  stamp the decoder put on the report.
\<close>

theorem publishGPSPosition_message:
  "gps_messages (trace (publishGPSPosition st)) =
     gps_messages (trace st) @
       [\<lparr>stamp = ros_time st, frame_id = ''rtk_base'',
         status = status_px4_to_ros (uint (fix_type (reportGPSPos st))),
         service = SERVICE_GPS,
         latitude = lat (reportGPSPos st), longitude = lon (reportGPSPos st),
         altitude = alt (reportGPSPos st),
         position_covariance =
           [eph (reportGPSPos st), 0, 0,
            0, eph (reportGPSPos st), 0,
            0, 0, epv (reportGPSPos st)],
         position_covariance_type = COVARIANCE_TYPE_APPROXIMATED\<rparr>] \<and>
   (\<forall>t. gps_messages (trace (publishGPSPosition
            (st\<lparr>reportGPSPos := (reportGPSPos st)\<lparr>timestamp := t\<rparr>\<rparr>))) =
        gps_messages (trace (publishGPSPosition st)))"
  by (simp add: publishGPSPosition_publishes position_message_def)

theorem publishGPSPosition_message_witness:
  "gps_messages (trace (publishGPSPosition position_example)) =
     [\<lparr>stamp = 9, frame_id = ''rtk_base'', status = 0, service = 1,
       latitude = 473977418, longitude = 85455938, altitude = 488000,
       position_covariance = [1, 0, 0, 0, 1, 0, 0, 0, 2],
       position_covariance_type = 1\<rparr>]"
  using publishGPSPosition_message [of position_example]
  by (simp add: position_example_def RTKNode_def status_px4_to_ros_def SERVICE_GPS_def
      COVARIANCE_TYPE_APPROXIMATED_def)


lemma filled_slots_diagonal:
  "h \<noteq> 0 \<Longrightarrow> v \<noteq> 0 \<Longrightarrow> filled_slots [h, 0, 0, 0, h, 0, 0, 0, v] = [0, 4, 8]"
  by (simp add: filled_slots_def upt_conv_Cons)

text \<open>
  The claim as stated speaks of two diagonal slots. For a report with a
  horizontal estimate of 1 and a vertical estimate of 2 the published array has
  three slots that are not zero: 0, 4 and 8.
\<close>

theorem publishGPSPosition_three_slots:
  "map (\<lambda>m. filled_slots (position_covariance m))
     (gps_messages (trace (publishGPSPosition position_example))) = [[0, 4, 8]] \<and>
   map (\<lambda>m. length (filled_slots (position_covariance m)))
     (gps_messages (trace (publishGPSPosition position_example))) \<noteq> [2]"
proof -
  have "gps_messages (trace (publishGPSPosition position_example)) =
      [position_message 9 (reportGPSPos position_example)]"
    by (simp add: publishGPSPosition_publishes position_example_def RTKNode_def)
  moreover have "position_covariance (position_message 9 (reportGPSPos position_example)) =
      [1, 0, 0, 0, 1, 0, 0, 0, 2]"
    by (simp add: position_message_def position_example_def)
  ultimately show ?thesis
    using filled_slots_diagonal [of 1 2] by simp
qed

section \<open>One turn of the session loop\<close>

lemma and_1_bit: "((x::int) AND 1 \<noteq> 0) = bit x 0"
  by (simp add: and_one_eq bit_0 odd_iff_mod_2_eq_one)

lemma and_2_bit: "((x::int) AND 2 \<noteq> 0) = bit x 1"
  using bit_iff_and_push_bit_not_eq_0 [of x 1] by simp

lemma loop_body_nonpositive:
  "helperRet it \<le> 0 \<Longrightarrow>
   loop_body it (n, st) =
     (n + 1, ros_log DEBUG [Txt ''Reading data''] (snd (gpsDriver_receive 100 it st)))"
  by (simp add: loop_body_def gpsDriver_receive_def Let_def)

lemma loop_body_receive_calls:
  "receive_calls (trace (snd (loop_body it (n, st)))) = Suc (receive_calls (trace st))"
  by (auto simp: loop_body_def gpsDriver_receive_def Let_def ros_log_def emit_def
      publishGPSPosition_def publishGPSSatellite_def receive_calls_append
      split: option.splits)

lemma loop_body_counter: "0 \<le> n \<Longrightarrow> 0 \<le> fst (loop_body it (n, st))"
  by (auto simp: loop_body_def gpsDriver_receive_def Let_def)

lemma loop_body_positive_counter: "0 < helperRet it \<Longrightarrow> fst (loop_body it (n, st)) = 0"
  by (auto simp: loop_body_def gpsDriver_receive_def Let_def)

text \<open>
  C5. For every positive result of \<^verbatim>\<open>receive\<close> the turn of the loop leaves
  the counter of consecutive failures at 0, whatever it was and whichever bits
  are set. The result is read as a bitmask: with bit 0 set the Position
  Publisher is invoked (one position message leaves, built from the report as
  the call left it), otherwise it is not; with bit 1 set and the satellite slot
  present the Satellite Publisher is invoked (it reports the count of the
  slot), otherwise it is not.
\<close>

theorem loop_body_positive:
  "0 < helperRet it \<Longrightarrow>
   fst (loop_body it (numTries, st)) = 0 \<and>
   gps_messages (trace (snd (loop_body it (numTries, st)))) =
     gps_messages (trace st) @
       (if bit (helperRet it) 0
        then [position_message (ros_time st + elapsed it) (report_after it st)] else []) \<and>
   satellite_reports (trace (snd (loop_body it (numTries, st)))) =
     satellite_reports (trace st) @
       (case satellites_after it st of
          None \<Rightarrow> []
        | Some info \<Rightarrow> if bit (helperRet it) 1 then [satellite_message info] else [])"
  by (auto simp: loop_body_def gpsDriver_receive_def Let_def ros_log_def emit_def
      publishGPSPosition_def publishGPSSatellite_def gps_messages_append
      satellite_reports_append and_1_bit and_2_bit report_after_def satellites_after_def
      position_message_def NavSatFix_init_def replicate_9 satellite_message_def
      split: option.splits)

theorem loop_body_positive_witness:
  "fst (loop_body (turn True 3) (2, position_example)) = 0 \<and>
   gps_messages (trace (snd (loop_body (turn True 3) (2, position_example)))) =
     [position_message 9 (reportGPSPos position_example)] \<and>
   satellite_reports (trace (snd (loop_body (turn True 3) (2, position_example)))) =
     [[Txt ''I see '', Num 0, Txt '' sattelites'']] \<and>
   fst (loop_body (turn True 2) (1, position_example)) = 0 \<and>
   gps_messages (trace (snd (loop_body (turn True 2) (1, position_example)))) = []"
proof -
  have b3: "bit (3::int) 0" "bit (3::int) 1" by (simp_all add: bit_iff_odd)
  have b2: "\<not> bit (2::int) 0" by (simp add: bit_iff_odd)
  show ?thesis
    using loop_body_positive [of "turn True 3" 2 position_example]
      loop_body_positive [of "turn True 2" 1 position_example]
    by (simp add: turn_def b3 b2 position_example_def RTKNode_def report_after_def
        satellites_after_def satellite_message_def)
qed

section \<open>The three-strikes rule of the session loop\<close>

lemma run_loop_done: "3 \<le> n \<Longrightarrow> run_loop its n st = Finished (n, st)"
  by (cases its) simp_all

lemma run_loop_append:
  "run_loop (xs @ ys) n st =
     (case run_loop xs n st of
        Finished r \<Rightarrow> Finished r
      | Out_of_script (n', st') \<Rightarrow> run_loop ys n' st')"
proof (induction xs arbitrary: n st)
  case Nil
  then show ?case by (simp add: run_loop_done)
next
  case (Cons x xs)
  then show ?case by (simp split: prod.splits)
qed

lemma run_loop_counter:
  "0 \<le> n \<Longrightarrow> run_loop xs n st = Out_of_script (n', st') \<Longrightarrow> 0 \<le> n' \<and> n' < 3"
proof (induction xs arbitrary: n st)
  case Nil
  then show ?case by (simp split: if_splits)
next
  case (Cons x xs)
  from Cons.prems(2) have ok: "ros_ok x \<and> n < 3" by (simp split: if_splits)
  obtain m s where b: "loop_body x (n, st) = (m, s)" by (cases "loop_body x (n, st)")
  have "0 \<le> m" using loop_body_counter [OF Cons.prems(1), of x st] b by simp
  moreover have "run_loop xs m s = Out_of_script (n', st')" using Cons.prems(2) ok b by simp
  ultimately show ?case using Cons.IH by blast
qed

lemma run_loop_receive_calls:
  "run_loop xs n st = Finished (n', st') \<or> run_loop xs n st = Out_of_script (n', st') \<Longrightarrow>
   receive_calls (trace st') \<le> receive_calls (trace st) + length xs"
proof (induction xs arbitrary: n st)
  case Nil
  then show ?case by (auto split: if_splits)
next
  case (Cons x xs)
  show ?case
  proof (cases "ros_ok x \<and> n < 3")
    case False
    with Cons.prems show ?thesis by auto
  next
    case True
    obtain m s where b: "loop_body x (n, st) = (m, s)" by (cases "loop_body x (n, st)")
    have "receive_calls (trace s) = Suc (receive_calls (trace st))"
      using loop_body_receive_calls [of x n st] b by simp
    moreover have "receive_calls (trace st') \<le> receive_calls (trace s) + length xs"
      using Cons.prems True b by (intro Cons.IH [of m s]) simp
    ultimately show ?thesis by simp
  qed
qed

lemma three_strikes:
  assumes "helperRet a \<le> 0" "helperRet b \<le> 0" "helperRet c \<le> 0" "0 \<le> n" "n < 3"
  shows "\<exists>r. run_loop (a # b # c # rest) n st = Finished r \<and> run_loop [a, b, c] n st = Finished r"
proof -
  have "n = 0 \<or> n = 1 \<or> n = 2" using assms(4,5) by auto
  then show ?thesis
    using assms(1-3) by (auto simp: loop_body_nonpositive run_loop_done)
qed

text \<open>
  C3. Whatever turns \<open>pre\<close> came before (the loop starts with the counter at
  0): if \<^verbatim>\<open>receive\<close> returns a value of at most 0 on three consecutive
  calls \<open>a\<close>, \<open>b\<close>, \<open>c\<close>, the loop has ended by then, with the result it has on
  the script cut after \<open>c\<close>, and \<^verbatim>\<open>receive\<close> has been called at most once per
  turn up to \<open>c\<close>: no turn of \<open>rest\<close> is run. If instead, with the run flag
  true and the counter at 0, two results of at most 0 are followed by a
  positive one, the counter is 0 after the third call and the loop is still
  running: it goes on with the turns of \<open>rest\<close> from a counter of 0.
\<close>

theorem run_loop_three_strikes:
  "(helperRet a \<le> 0 \<and> helperRet b \<le> 0 \<and> helperRet c \<le> 0 \<longrightarrow>
      (\<exists>n' st'. run_loop (pre @ [a, b, c] @ rest) 0 st = Finished (n', st') \<and>
         run_loop (pre @ [a, b, c]) 0 st = Finished (n', st') \<and>
         receive_calls (trace st') \<le> receive_calls (trace st) + length pre + 3)) \<and>
   (ros_ok a \<and> ros_ok b \<and> ros_ok c \<and> helperRet a \<le> 0 \<and> helperRet b \<le> 0 \<and> 0 < helperRet c \<longrightarrow>
      fst (loop_body c (loop_body b (loop_body a (0, st)))) = 0 \<and>
      run_loop [a, b, c] 0 st = Out_of_script (loop_body c (loop_body b (loop_body a (0, st)))) \<and>
      run_loop ([a, b, c] @ rest) 0 st =
        run_loop rest 0 (snd (loop_body c (loop_body b (loop_body a (0, st))))))"
proof (intro conjI impI)
  assume neg: "helperRet a \<le> 0 \<and> helperRet b \<le> 0 \<and> helperRet c \<le> 0"
  show "\<exists>n' st'. run_loop (pre @ [a, b, c] @ rest) 0 st = Finished (n', st') \<and>
         run_loop (pre @ [a, b, c]) 0 st = Finished (n', st') \<and>
         receive_calls (trace st') \<le> receive_calls (trace st) + length pre + 3"
  proof (cases "run_loop pre 0 st")
    case (Finished r)
    obtain n' st' where r: "r = (n', st')" by (cases r)
    have "receive_calls (trace st') \<le> receive_calls (trace st) + length pre"
      using run_loop_receive_calls [of pre 0 st n' st'] Finished r by simp
    then show ?thesis using Finished r by (simp add: run_loop_append)
  next
    case (Out_of_script r)
    obtain m s where r: "r = (m, s)" by (cases r)
    have m: "0 \<le> m \<and> m < 3" using run_loop_counter [of 0 pre st m s] Out_of_script r by simp
    have s: "receive_calls (trace s) \<le> receive_calls (trace st) + length pre"
      using run_loop_receive_calls [of pre 0 st m s] Out_of_script r by simp
    from three_strikes [of a b c m rest s] neg m obtain q where
      q: "run_loop (a # b # c # rest) m s = Finished q" "run_loop [a, b, c] m s = Finished q"
      by blast
    obtain n' st' where q': "q = (n', st')" by (cases q)
    have "receive_calls (trace st') \<le> receive_calls (trace s) + 3"
      using run_loop_receive_calls [of "[a, b, c]" m s n' st'] q(2) q' by simp
    then show ?thesis using Out_of_script r q q' s by (simp add: run_loop_append)
  qed
next
  assume h: "ros_ok a \<and> ros_ok b \<and> ros_ok c \<and> helperRet a \<le> 0 \<and> helperRet b \<le> 0 \<and> 0 < helperRet c"
  let ?s1 = "ros_log DEBUG [Txt ''Reading data''] (snd (gpsDriver_receive 100 a st))"
  let ?s2 = "ros_log DEBUG [Txt ''Reading data''] (snd (gpsDriver_receive 100 b ?s1))"
  have a: "loop_body a (0, st) = (1, ?s1)" using h by (simp add: loop_body_nonpositive)
  have b: "loop_body b (1, ?s1) = (2, ?s2)" using h by (simp add: loop_body_nonpositive)
  obtain m s where c: "loop_body c (2, ?s2) = (m, s)" by (cases "loop_body c (2, ?s2)")
  have m: "m = 0" using loop_body_positive_counter [of c 2 ?s2] h c by simp
  show "fst (loop_body c (loop_body b (loop_body a (0, st)))) = 0"
    by (simp add: a b c m)
  show "run_loop [a, b, c] 0 st = Out_of_script (loop_body c (loop_body b (loop_body a (0, st))))"
    using h by (simp add: a b c m)
  show "run_loop ([a, b, c] @ rest) 0 st =
        run_loop rest 0 (snd (loop_body c (loop_body b (loop_body a (0, st)))))"
    using h by (simp add: a b c m)
qed

theorem run_loop_three_strikes_witness:
  "(\<exists>n' st'.
      run_loop ([turn True 1] @ [turn True 0, turn True 0, turn True (- 1)] @ [turn True 1]) 0
        (RTKNode 38400 ''X'' good_port) = Finished (n', st') \<and>
      run_loop ([turn True 1] @ [turn True 0, turn True 0, turn True (- 1)]) 0
        (RTKNode 38400 ''X'' good_port) = Finished (n', st') \<and>
      receive_calls (trace st') \<le> 4) \<and>
   fst (loop_body (turn True 3) (loop_body (turn True 0) (loop_body (turn True 0)
          (0, RTKNode 38400 ''X'' good_port)))) = 0 \<and>
   run_loop ([turn True 0, turn True 0, turn True 3] @ [turn True 0]) 0
       (RTKNode 38400 ''X'' good_port) =
     run_loop [turn True 0] 0
       (snd (loop_body (turn True 3) (loop_body (turn True 0) (loop_body (turn True 0)
          (0, RTKNode 38400 ''X'' good_port)))))"
  using run_loop_three_strikes [of "turn True 0" "turn True 0" "turn True (- 1)" "[turn True 1]"
      "[turn True 1]" "RTKNode 38400 ''X'' good_port"]
    run_loop_three_strikes [of "turn True 0" "turn True 0" "turn True 3" "[]"
      "[turn True 0]" "RTKNode 38400 ''X'' good_port"]
  by (simp add: turn_def RTKNode_def)

section \<open>The callbacks that move bytes\<close>

lemma to_size_t_small: "0 \<le> i \<Longrightarrow> i < 2 ^ 31 \<Longrightarrow> to_size_t i = nat i"
  by (simp add: to_size_t_def)

lemma to_int_small: "n < 2 ^ 31 \<Longrightarrow> to_int n = int n"
  by (simp add: to_int_def Let_def)

text \<open>
  C9. For every write-device-data callback with a handle in place, buffer
  \<open>data1\<close> and length \<open>data2\<close> (a length that an \<^verbatim>\<open>int\<close> holds): the callback
  returns \<open>data2\<close> if the transport wrote exactly \<open>data2\<close> bytes and -1
  otherwise. It calls \<^verbatim>\<open>write\<close> once, with the \<open>data2\<close> bytes of the buffer,
  and nothing after it: a short write is not retried, the bytes the device
  took are all that was sent.
\<close>

theorem callback_writeDeviceData:
  "serial st \<noteq> None \<Longrightarrow> 0 \<le> data2 \<Longrightarrow> data2 < 2 ^ 31 \<Longrightarrow>
   fst (callback GPSCallbackType_writeDeviceData data1 data2 st) =
     Inr (if min (nat data2) (tx_room st) = nat data2 then data2 else - 1) \<and>
   events_since st (snd (callback GPSCallbackType_writeDeviceData data1 data2 st)) =
     [Log DEBUG [Txt ''Write device data''],
      Serial_call (Write (load_bytes (mem_bytes st) data1 (nat data2)))] \<and>
   tx_sent (snd (callback GPSCallbackType_writeDeviceData data1 data2 st)) =
     tx_sent st @ take (tx_room st) (load_bytes (mem_bytes st) data1 (nat data2))"
proof -
  assume h: "serial st \<noteq> None" "0 \<le> data2" "data2 < 2 ^ 31"
  let ?bs = "load_bytes (mem_bytes st) data1 (nat data2)"
  have len: "length ?bs = nat data2" by (simp add: load_bytes_def)
  have w: "min (nat data2) (tx_room st) < 2 ^ 31" using h by auto
  have ti: "to_int (min (nat data2) (tx_room st)) = int (min (nat data2) (tx_room st))"
    using to_int_small [OF w] .
  obtain hd where hd: "serial st = Some hd" using h(1) by auto
  have eq: "(int (min (nat data2) (tx_room st)) = data2) = (min (nat data2) (tx_room st) = nat data2)"
    using h(2) by auto
  have tk: "take (min (nat data2) (tx_room st)) ?bs = take (tx_room st) ?bs"
    using len by (simp add: min_def)
  show ?thesis
    by (simp add: callback_def Let_def hd ros_log_def emit_def serial_write_def len ti
        to_size_t_small [OF h(2,3)] events_since_def eq tk)
qed

theorem callback_writeDeviceData_witness:
  "fst (callback GPSCallbackType_writeDeviceData 16 2 write_example) = Inr 2 \<and>
   fst (callback GPSCallbackType_writeDeviceData 16 3 write_example) = Inr (- 1) \<and>
   tx_sent (snd (callback GPSCallbackType_writeDeviceData 16 3 write_example)) = [181, 98]"
  using callback_writeDeviceData [of write_example 2 16]
    callback_writeDeviceData [of write_example 3 16]
  by (simp add: write_example_def RTKNode_def load_bytes_def store_bytes_def upt_rec)

text \<open>
  C6. For every byte sequence \<open>bs\<close> of length \<open>L\<close> (a length that an \<^verbatim>\<open>int\<close>
  holds) that lies in the buffer handed to the correction-message callback,
  the callback returns 0 and the correction sink receives one message more:
  exactly \<open>bs\<close>, its \<open>L\<close> bytes in their order. The bytes are copied when the
  callback runs: whatever the memory holds after the callback has returned, the
  message that was forwarded is \<open>bs\<close>.
\<close>

theorem callback_gotRTCMMessage_copies:
  "length bs < 2 ^ 31 \<Longrightarrow> load_bytes (mem_bytes st) data1 (length bs) = bs \<Longrightarrow>
   fst (callback GPSCallbackType_gotRTCMMessage data1 (int (length bs)) st) = Inr 0 \<and>
   rtcm_messages (trace (snd (callback GPSCallbackType_gotRTCMMessage data1 (int (length bs)) st))) =
     rtcm_messages (trace st) @ [bs] \<and>
   (\<forall>m. rtcm_messages (trace
      ((snd (callback GPSCallbackType_gotRTCMMessage data1 (int (length bs)) st))
         \<lparr>mem_bytes := m\<rparr>)) = rtcm_messages (trace st) @ [bs])"
proof -
  assume h: "length bs < 2 ^ 31" "load_bytes (mem_bytes st) data1 (length bs) = bs"
  have sz: "to_size_t (int (length bs)) = length bs"
    using h(1) by (simp add: to_size_t_small)
  have "length bs < 2 ^ 63" using h(1) by (rule less_trans) simp
  then have mx: "\<not> vector_max_size < length bs" by (simp add: vector_max_size_def)
  show ?thesis
    by (simp add: callback_def gotRTCMData_def Let_def sz mx h(2) ros_log_def emit_def
        rtcm_messages_append)
qed

theorem callback_gotRTCMMessage_copies_witness:
  "fst (callback GPSCallbackType_gotRTCMMessage 32 4 rtcm_example) = Inr 0 \<and>
   rtcm_messages (trace (snd (callback GPSCallbackType_gotRTCMMessage 32 4 rtcm_example))) =
     [[211, 0, 19, 62]] \<and>
   rtcm_messages (trace
      ((snd (callback GPSCallbackType_gotRTCMMessage 32 4 rtcm_example))
         \<lparr>mem_bytes := (\<lambda>a. 255)\<rparr>)) = [[211, 0, 19, 62]]"
proof -
  have ld: "load_bytes (mem_bytes rtcm_example) 32 (length [211, 0, 19, 62 :: byte]) =
      [211, 0, 19, 62]"
    by (simp add: rtcm_example_def load_bytes_def store_bytes_def upt_rec)
  have tr: "trace rtcm_example = []" by (simp add: rtcm_example_def RTKNode_def)
  show ?thesis
    using callback_gotRTCMMessage_copies [of "[211, 0, 19, 62]" rtcm_example 32, OF _ ld]
    by (simp add: tr)
qed

section \<open>Reading from the device\<close>

lemmas read_defs = callback_def Let_def ros_log_def emit_def serial_available_def
  serial_waitReadable_def wait_readable_for_def serial_read_def

text \<open>
  The value that the read callback returns does not depend on what the buffer
  holds when it is called, the timeout at its start included.
\<close>

lemma callback_readDeviceData_result_independent:
  "fst (callback GPSCallbackType_readDeviceData data1 data2 (st\<lparr>mem_bytes := m\<rparr>)) =
   fst (callback GPSCallbackType_readDeviceData data1 data2 st)"
  by (simp add: read_defs split: option.splits prod.splits)

text \<open>
  C8 says that with no byte available the callback waits until the transport
  is readable or the timeout read from \<open>data1\<close> has elapsed. The code reads
  that timeout and does not use it: it waits for the read timeout of the handle.
  With 100 asked for and the bytes 300 away, the callback waits 300 and returns
  the 3 bytes; with 1000 asked for and the bytes 700 away, it gives up after
  500 and returns 0.
\<close>

theorem callback_readDeviceData_ignores_embedded_timeout:
  "load_int (mem_bytes waits_too_long) 16 = 100 \<and>
   fst (callback GPSCallbackType_readDeviceData 16 64 waits_too_long) = Inr 3 \<and>
   ros_time (snd (callback GPSCallbackType_readDeviceData 16 64 waits_too_long)) =
     ros_time waits_too_long + 300 \<and>
   load_int (mem_bytes gives_up_early) 16 = 1000 \<and>
   fst (callback GPSCallbackType_readDeviceData 16 64 gives_up_early) = Inr 0 \<and>
   ros_time (snd (callback GPSCallbackType_readDeviceData 16 64 gives_up_early)) =
     ros_time gives_up_early + 500"
  by (simp add: waits_too_long_def gives_up_early_def RTKNode_def default_Serial_def read_defs
      load_int_def store_bytes_def to_int_def to_size_t_def)

section \<open>The survey-in status\<close>

text \<open>
  C2 says that the callback stores a copy of the status that \<open>data1\<close> refers
  to. The code stores the pointer: the callback returns 0 and the session then
  refers to the decoder's object at address 7. When the decoder overwrites that
  object the status of the session changes with it, and when the object is gone
  the session refers to nothing.
\<close>

theorem callback_surveyInStatus_keeps_pointer:
  "fst (callback GPSCallbackType_surveyInStatus 7 0 survey_example) = Inr 0 \<and>
   surveyInStatus (snd (callback GPSCallbackType_surveyInStatus 7 0 survey_example)) = 7 \<and>
   current_surveyInStatus (snd (callback GPSCallbackType_surveyInStatus 7 0 survey_example)) =
     Some \<lparr>duration = 10, mean_accuracy = 5, flags = 3\<rparr> \<and>
   current_surveyInStatus
     ((snd (callback GPSCallbackType_surveyInStatus 7 0 survey_example))
        \<lparr>mem_survey := (mem_survey survey_example)
           (7 \<mapsto> \<lparr>duration = 0, mean_accuracy = 0, flags = 0\<rparr>)\<rparr>) =
     Some \<lparr>duration = 0, mean_accuracy = 0, flags = 0\<rparr> \<and>
   current_surveyInStatus
     ((snd (callback GPSCallbackType_surveyInStatus 7 0 survey_example))
        \<lparr>mem_survey := (mem_survey survey_example)(7 := None)\<rparr>) = None"
  by (simp add: survey_example_def RTKNode_def callback_def Let_def ros_log_def emit_def
      current_surveyInStatus_def)

section \<open>Connecting: what the trace of a call looks like\<close>

lemmas op_defs = ros_log_def emit_def set_connected_def serial_open_def serial_isOpen_def
  serial_setTimeout_def with_serial_def

lemma connect_loop_unfold:
  "connect_loop tries st =
     (if tries < 5 then
        (if fst (try_open st)
         then serial_setTimeout 500 (set_connected True (snd (try_open st)))
         else connect_loop (tries + 1)
                (ros_log INFO [Txt ''Bad Connection with serial port Error '', Txt (port st)]
                   (set_connected False (snd (try_open st)))))
      else st)"
  apply (subst connect_loop.simps)
  apply (simp add: try_open_def Let_def split: prod.splits)
  apply (auto simp: op_defs Let_def split: open_outcome.splits option.splits exn.splits)
  done

lemma try_open_trace:
  "\<exists>mid. trace (snd (try_open st)) = trace st @ mid \<and> Serial_call Open \<in> set mid \<and>
     (\<forall>e \<in> set mid. \<not> is_config_call e \<and> e \<noteq> Assign_connected True)"
  by (auto simp: try_open_def op_defs Let_def split: open_outcome.splits option.splits exn.splits)

lemma try_open_dev_open: "dev_open (snd (try_open st)) = fst (try_open st)"
  by (auto simp: try_open_def op_defs Let_def split: open_outcome.splits option.splits exn.splits)

lemma try_open_serial: "serial (snd (try_open st)) = serial st"
  by (auto simp: try_open_def op_defs Let_def split: open_outcome.splits option.splits exn.splits)

lemma connect_loop_trace:
  "tries < 5 \<Longrightarrow>
   \<exists>mid. (\<forall>e \<in> set mid. \<not> is_config_call e \<and> e \<noteq> Assign_connected True) \<and>
     Serial_call Open \<in> set mid \<and>
     (loop_connected mid st (connect_loop tries st) \<or> loop_gave_up mid st (connect_loop tries st))"
proof (induction "nat (5 - tries)" arbitrary: tries st)
  case 0
  then show ?case by simp
next
  case (Suc n)
  note lt = \<open>tries < 5\<close>
  obtain m1 where m1: "trace (snd (try_open st)) = trace st @ m1" "Serial_call Open \<in> set m1"
    "\<forall>e \<in> set m1. \<not> is_config_call e \<and> e \<noteq> Assign_connected True"
    using try_open_trace by blast
  show ?case
  proof (cases "fst (try_open st)")
    case True
    then have eq: "connect_loop tries st = serial_setTimeout 500 (set_connected True (snd (try_open st)))"
      using lt by (subst connect_loop_unfold) simp
    have "loop_connected m1 st (connect_loop tries st)"
      using True try_open_dev_open [of st] try_open_serial [of st]
      by (simp add: loop_connected_def eq m1 serial_setTimeout_def set_connected_def emit_def
          with_serial_def)
    then show ?thesis using m1 by blast
  next
    case False
    let ?bad = "[Assign_connected False,
                 Log INFO [Txt ''Bad Connection with serial port Error '', Txt (port st)]]"
    define st' where "st' = ros_log INFO [Txt ''Bad Connection with serial port Error '', Txt (port st)]
                   (set_connected False (snd (try_open st)))"
    have eq: "connect_loop tries st = connect_loop (tries + 1) st'"
      using lt False unfolding st'_def by (subst connect_loop_unfold) simp
    have tr': "trace st' = trace st @ m1 @ ?bad"
      by (simp add: st'_def m1 ros_log_def set_connected_def emit_def)
    have c': "\<not> connected st'" "\<not> dev_open st'" "serial st' = serial st"
      using False try_open_dev_open [of st] try_open_serial [of st]
      by (simp_all add: st'_def ros_log_def set_connected_def emit_def)
    show ?thesis
    proof (cases "tries + 1 < 5")
      case False
      then have "connect_loop (tries + 1) st' = st'" by (subst connect_loop_unfold) simp
      then have "loop_gave_up (m1 @ ?bad) st (connect_loop tries st)"
        using c' by (simp add: loop_gave_up_def eq tr')
      moreover have "\<forall>e \<in> set (m1 @ ?bad). \<not> is_config_call e \<and> e \<noteq> Assign_connected True"
        using m1(3) by auto
      moreover have "Serial_call Open \<in> set (m1 @ ?bad)" using m1(2) by simp
      ultimately show ?thesis by blast
    next
      case True
      have "n = nat (5 - (tries + 1))" using Suc(2) by simp
      from Suc(1) [OF this True, of st'] obtain m2 where m2:
        "\<forall>e \<in> set m2. \<not> is_config_call e \<and> e \<noteq> Assign_connected True"
        "loop_connected m2 st' (connect_loop (tries + 1) st') \<or>
         loop_gave_up m2 st' (connect_loop (tries + 1) st')"
        by blast
      have "loop_connected (m1 @ ?bad @ m2) st (connect_loop tries st) \<or>
            loop_gave_up (m1 @ ?bad @ m2) st (connect_loop tries st)"
        using m2(2) c'(3) by (auto simp: loop_connected_def loop_gave_up_def eq tr')
      moreover have "\<forall>e \<in> set (m1 @ ?bad @ m2). \<not> is_config_call e \<and> e \<noteq> Assign_connected True"
        using m1(3) m2(1) by auto
      moreover have "Serial_call Open \<in> set (m1 @ ?bad @ m2)" using m1(2) by simp
      ultimately show ?thesis by blast
    qed
  qed
qed


lemmas setter_defs = serial_setPort_def serial_setBaudrate_def serial_setBytesize_def
  serial_setParity_def serial_setStopbits_def serial_setFlowcontrol_def

lemma connect_throws:
  "dev_plan st (dev_opens st) = Open_throws e b \<Longrightarrow>
   fst (connect st) = Some e \<and>
   trace (snd (connect st)) = trace st @ [Serial_call (SetPort (port st)), Serial_call Open]"
  by (simp add: connect_def op_defs setter_defs Let_def)

lemma connect_closed:
  "dev_plan st (dev_opens st) = Open_returns False \<Longrightarrow>
   fst (connect st) = None \<and>
   trace (snd (connect st)) =
     trace st @ [Serial_call (SetPort (port st)), Serial_call Open, Serial_call IsOpen,
       Log WARN [Txt ''GPS: Failed to open Serial Device: '', Txt (port st)]]"
  by (simp add: connect_def op_defs setter_defs Let_def)

lemma connect_opened:
  "dev_plan st (dev_opens st) = Open_returns True \<Longrightarrow>
   connect st = (None, connect_loop 0 (loop_start st))"
  by (cases "serial st")
     (simp_all add: connect_def op_defs setter_defs Let_def loop_start_def handle0_def shape_calls_def)


lemma before_connected_end:
  "Assign_connected True \<notin> set xs \<Longrightarrow> before_connected (xs @ Assign_connected True # ys) = xs"
  by (induction xs) (auto simp: before_connected_def)

lemma after_last_open_suffix:
  "Serial_call Open \<in> set ys \<Longrightarrow> set (after_last_open (xs @ ys)) \<subseteq> set ys"
proof -
  assume "Serial_call Open \<in> set ys"
  then have "\<exists>e \<in> set (rev ys). \<not> e \<noteq> Serial_call Open" by simp
  then have "takeWhile (\<lambda>e. e \<noteq> Serial_call Open) (rev ys @ rev xs) =
             takeWhile (\<lambda>e. e \<noteq> Serial_call Open) (rev ys)"
    by (intro takeWhile_append1) auto 
  then show ?thesis
    using set_takeWhileD [of _ "\<lambda>e. e \<noteq> Serial_call Open" "rev ys"]
    by (auto simp: after_last_open_def)
qed

lemma failed_attempts_append:
  "failed_attempts (xs @ ys) = failed_attempts xs + failed_attempts ys"
  by (simp add: failed_attempts_def)

lemma after_failures_prefix:
  "failed_attempts xs = 0 \<Longrightarrow> after_failures (Suc n) (xs @ ys) = after_failures (Suc n) ys"
  by (induction xs) (auto simp: failed_attempts_def split: if_splits)

lemma try_open_failed_attempts:
  "\<exists>m. trace (snd (try_open st)) = trace st @ m \<and> failed_attempts m = 0"
  by (auto simp: try_open_def op_defs Let_def failed_attempts_def
      split: open_outcome.splits option.splits exn.splits)

lemma try_open_port: "port (snd (try_open st)) = port st"
  by (auto simp: try_open_def op_defs Let_def split: open_outcome.splits option.splits exn.splits)

lemma connect_loop_extends: "\<exists>evs. trace (connect_loop tries st) = trace st @ evs"
proof (cases "tries < 5")
  case True
  from connect_loop_trace [OF this, of st] show ?thesis
    by (auto simp: loop_connected_def loop_gave_up_def)
next
  case False
  then have "connect_loop tries st = st" by (subst connect_loop_unfold) simp
  then show ?thesis by simp
qed

lemma connect_loop_failures:
  "tries < 5 \<Longrightarrow>
   (dev_open (connect_loop tries st) \<longrightarrow>
      failed_attempts (events_since st (connect_loop tries st)) < nat (5 - tries)) \<and>
   (\<not> dev_open (connect_loop tries st) \<longrightarrow>
      failed_attempts (events_since st (connect_loop tries st)) = nat (5 - tries) \<and>
      after_failures (nat (5 - tries)) (events_since st (connect_loop tries st)) =
        [Log INFO [Txt ''Bad Connection with serial port Error '', Txt (port st)]])"
proof (induction "nat (5 - tries)" arbitrary: tries st)
  case 0
  then show ?case by simp
next
  case (Suc n)
  note lt = \<open>tries < 5\<close>
  have n: "nat (5 - tries) = Suc n" using Suc(2) by simp
  obtain m1 where m1: "trace (snd (try_open st)) = trace st @ m1" "failed_attempts m1 = 0"
    using try_open_failed_attempts by blast
  show ?case
  proof (cases "fst (try_open st)")
    case True
    then have eq: "connect_loop tries st = serial_setTimeout 500 (set_connected True (snd (try_open st)))"
      using lt by (subst connect_loop_unfold) simp
    have ev: "events_since st (connect_loop tries st) =
        m1 @ [Assign_connected True, Serial_call (SetTimeout 500)]"
      by (simp add: eq events_since_def m1 serial_setTimeout_def set_connected_def emit_def
          with_serial_def)
    have "dev_open (connect_loop tries st)"
      using True try_open_dev_open [of st]
      by (simp add: eq serial_setTimeout_def set_connected_def emit_def with_serial_def)
    moreover have "failed_attempts (events_since st (connect_loop tries st)) = 0"
      using m1(2) by (simp add: ev failed_attempts_def)
    ultimately show ?thesis by (simp add: n)
  next
    case False
    let ?info = "Log INFO [Txt ''Bad Connection with serial port Error '', Txt (port st)]"
    define st' where "st' = ros_log INFO [Txt ''Bad Connection with serial port Error '', Txt (port st)]
                   (set_connected False (snd (try_open st)))"
    have eq: "connect_loop tries st = connect_loop (tries + 1) st'"
      using lt False unfolding st'_def by (subst connect_loop_unfold) simp
    have tr': "trace st' = trace st @ m1 @ [Assign_connected False, ?info]"
      by (simp add: st'_def m1 ros_log_def set_connected_def emit_def)
    have c': "\<not> dev_open st'" "port st' = port st"
      using False try_open_dev_open [of st] try_open_port [of st]
      by (simp_all add: st'_def ros_log_def set_connected_def emit_def)
    obtain x where x: "trace (connect_loop (tries + 1) st') = trace st' @ x"
      using connect_loop_extends by blast
    have ev: "events_since st (connect_loop tries st) = m1 @ Assign_connected False # ?info # x"
      by (simp add: eq events_since_def x tr')
    have ev': "events_since st' (connect_loop (tries + 1) st') = x"
      by (simp add: events_since_def x)
    have fa: "failed_attempts (m1 @ Assign_connected False # ?info # x) = Suc (failed_attempts x)"
      using m1(2) by (simp add: failed_attempts_def)
    have af: "after_failures (Suc n) (m1 @ Assign_connected False # ?info # x) =
        after_failures n (?info # x)"
      using after_failures_prefix [OF m1(2)] by simp
    show ?thesis
    proof (cases "tries + 1 < 5")
      case False
      then have last: "connect_loop (tries + 1) st' = st'" by (subst connect_loop_unfold) simp
      then have x0: "x = []" using x by simp
      have n0: "n = 0" using False Suc(2) by simp
      have d: "\<not> dev_open (connect_loop tries st)" using c'(1) by (simp add: eq last)
      have f: "failed_attempts (events_since st (connect_loop tries st)) = Suc 0"
        using fa by (simp add: ev x0 failed_attempts_def)
      have a: "after_failures (Suc 0) (events_since st (connect_loop tries st)) = [?info]"
        using af by (simp add: ev x0 n0)
      show ?thesis using d f a by (simp add: n n0)
    next
      case True
      have nn: "n = nat (5 - (tries + 1))" using Suc(2) by simp
      have "0 < n" using True nn by simp
      then obtain k where k: "n = Suc k" by (cases n) simp_all
      have ih: "(dev_open (connect_loop (tries + 1) st') \<longrightarrow> failed_attempts x < n) \<and>
          (\<not> dev_open (connect_loop (tries + 1) st') \<longrightarrow>
             failed_attempts x = n \<and> after_failures n x = [?info])"
        using Suc(1) [OF nn True, of st'] by (simp add: ev' c'(2) nn)
      have f: "failed_attempts (events_since st (connect_loop tries st)) = Suc (failed_attempts x)"
        using fa by (simp add: ev)
      have a: "after_failures (Suc n) (events_since st (connect_loop tries st)) = after_failures n x"
        using af by (simp add: ev k)
      have d: "dev_open (connect_loop tries st) = dev_open (connect_loop (tries + 1) st')"
        by (simp add: eq)
      show ?thesis using ih by (simp add: n f a d)
    qed
  qed
qed


lemma connect_closed_dev_open:
  "dev_plan st (dev_opens st) = Open_returns False \<Longrightarrow> \<not> dev_open (snd (connect st))"
  by (simp add: connect_def op_defs setter_defs Let_def)

text \<open>
  C7, as amended. Whenever \<^verbatim>\<open>connect\<close> returns with the transport open, the
  state is connected, and what the call did ends with the assignment
  \<^verbatim>\<open>connected = true\<close> followed by the call that sets the read timeout to 500:
  the timeout is set right after the flag, not before it, and before the
  return. Before the flag is set the frame shape has been configured, by the
  four calls for 8 data bits, no parity, 1 stop bit and no flow control, and no
  call after them touches shape or timeout; the handle holds that shape and the
  timeout of 500 at the return, and fewer than five attempts have failed. When
  the fifth attempt of the retry loop has failed, \<^verbatim>\<open>connect\<close> returns with
  the state not connected and the transport closed, nothing follows the fifth
  failure but its log line, and the timeout has never been set. And whenever
  \<^verbatim>\<open>connect\<close> does not return with the transport open, the timeout is never
  set and no shape or timeout call follows the last \<^verbatim>\<open>open()\<close>. No call of
  \<^verbatim>\<open>connect\<close> sees more than five failed attempts.
\<close>

theorem connect_configures:
  "(fst (connect st) = None \<and> dev_open (snd (connect st)) \<longrightarrow>
      connected (snd (connect st)) \<and>
      events_since st (snd (connect st)) =
        before_connected (events_since st (snd (connect st))) @
          [Assign_connected True, Serial_call (SetTimeout 500)] \<and>
      (\<exists>pre mid. before_connected (events_since st (snd (connect st))) = pre @ shape_calls @ mid \<and>
         (\<forall>e \<in> set mid. \<not> is_config_call e)) \<and>
      map_option s_bytesize (serial (snd (connect st))) = Some eightbits \<and>
      map_option s_parity (serial (snd (connect st))) = Some parity_none \<and>
      map_option s_stopbits (serial (snd (connect st))) = Some stopbits_one \<and>
      map_option s_flowcontrol (serial (snd (connect st))) = Some flowcontrol_none \<and>
      map_option s_timeout (serial (snd (connect st))) = Some 500 \<and>
      failed_attempts (events_since st (snd (connect st))) < 5) \<and>
   (failed_attempts (events_since st (snd (connect st))) = 5 \<longrightarrow>
      fst (connect st) = None \<and> \<not> connected (snd (connect st)) \<and>
      \<not> dev_open (snd (connect st)) \<and>
      after_failures 5 (events_since st (snd (connect st))) =
        [Log INFO [Txt ''Bad Connection with serial port Error '', Txt (port st)]] \<and>
      (\<forall>t. Serial_call (SetTimeout t) \<notin> set (events_since st (snd (connect st))))) \<and>
   (fst (connect st) \<noteq> None \<or> \<not> dev_open (snd (connect st)) \<longrightarrow>
      (\<forall>t. Serial_call (SetTimeout t) \<notin> set (events_since st (snd (connect st)))) \<and>
      (\<forall>e \<in> set (after_last_open (events_since st (snd (connect st)))). \<not> is_config_call e)) \<and>
   failed_attempts (events_since st (snd (connect st))) \<le> 5"
proof (cases "dev_plan st (dev_opens st)")
  case (Open_throws e b)
  from connect_throws [OF this] show ?thesis
    by (simp add: events_since_def after_last_open_def failed_attempts_def)
next
  case (Open_returns b)
  show ?thesis
  proof (cases b)
    case False
    with Open_returns connect_closed [of st] connect_closed_dev_open [of st] show ?thesis
      by (simp add: events_since_def after_last_open_def failed_attempts_def)
  next
    case True
    let ?c = "loop_start st"
    let ?L = "connect_loop 0 ?c"
    let ?E = "events_since st (snd (connect st))"
    let ?pre = "[Serial_call (SetPort (port st)), Serial_call Open, Serial_call IsOpen,
                  Serial_call (SetBaudrate (baud st))]"
    let ?info = "Log INFO [Txt ''Bad Connection with serial port Error '', Txt (port st)]"
    have eq: "connect st = (None, ?L)"
      using Open_returns True by (simp add: connect_opened)
    have trc: "trace ?c = trace st @ ?pre @ shape_calls" by (simp add: loop_start_def)
    have prt: "port ?c = port st" by (simp add: loop_start_def)
    obtain x where x: "trace ?L = trace ?c @ x" using connect_loop_extends by blast
    have E: "?E = (?pre @ shape_calls) @ x" by (simp add: eq events_since_def x trc)
    have Ex: "events_since ?c ?L = x" by (simp add: events_since_def x)
    have fP: "failed_attempts (?pre @ shape_calls) = 0"
      by (simp add: failed_attempts_def shape_calls_def)
    have fE: "failed_attempts ?E = failed_attempts x"
      using failed_attempts_append [of "?pre @ shape_calls" x] fP unfolding E by simp
    have "after_failures (Suc 4) ((?pre @ shape_calls) @ x) = after_failures (Suc 4) x"
      using fP by (rule after_failures_prefix)
    then have aE: "after_failures 5 ?E = after_failures 5 x"
      unfolding E by (simp add: eval_nat_numeral)
    have cnt: "(dev_open ?L \<longrightarrow> failed_attempts x < 5) \<and>
        (\<not> dev_open ?L \<longrightarrow> failed_attempts x = 5 \<and> after_failures 5 x = [?info])"
      using connect_loop_failures [of 0 ?c] by (simp add: Ex prt)
    from connect_loop_trace [of 0 ?c] obtain mid where mid:
      "\<forall>e \<in> set mid. \<not> is_config_call e \<and> e \<noteq> Assign_connected True"
      "Serial_call Open \<in> set mid"
      "loop_connected mid ?c ?L \<or> loop_gave_up mid ?c ?L"
      by auto
    from mid(3) show ?thesis
    proof
      assume ok: "loop_connected mid ?c ?L"
      then have ev: "?E = (?pre @ shape_calls @ mid) @ [Assign_connected True, Serial_call (SetTimeout 500)]"
        by (simp add: eq events_since_def loop_connected_def trc)
      have notin: "Assign_connected True \<notin> set (?pre @ shape_calls @ mid)"
        using mid(1) by (auto simp: shape_calls_def)
      have bc: "before_connected ?E = ?pre @ shape_calls @ mid"
        unfolding ev using before_connected_end [OF notin] by simp
      have op: "dev_open ?L" using ok by (simp add: loop_connected_def)
      have p1: "\<exists>pre m. before_connected ?E = pre @ shape_calls @ m \<and>
         (\<forall>e \<in> set m. \<not> is_config_call e)"
        using bc mid(1) by blast
      have p2: "?E = before_connected ?E @ [Assign_connected True, Serial_call (SetTimeout 500)]"
        unfolding bc using ev by simp
      have p3: "connected (snd (connect st))" "fst (connect st) = None" "dev_open (snd (connect st))"
        using ok by (simp_all add: eq loop_connected_def)
      have "serial (snd (connect st)) = map_option (\<lambda>h. h\<lparr>s_timeout := 500\<rparr>) (serial ?c)"
        using ok by (simp add: eq loop_connected_def)
      then have p4: "map_option s_bytesize (serial (snd (connect st))) = Some eightbits"
        "map_option s_parity (serial (snd (connect st))) = Some parity_none"
        "map_option s_stopbits (serial (snd (connect st))) = Some stopbits_one"
        "map_option s_flowcontrol (serial (snd (connect st))) = Some flowcontrol_none"
        "map_option s_timeout (serial (snd (connect st))) = Some 500"
        by (simp_all add: loop_start_def)
      have p5: "failed_attempts ?E < 5" using cnt op by (simp add: fE)
      show ?thesis
        using p1 p2 p3 p4 p5 by simp
    next
      assume no: "loop_gave_up mid ?c ?L"
      then have ev: "?E = (?pre @ shape_calls) @ mid"
        by (simp add: eq events_since_def loop_gave_up_def trc)
      have op: "\<not> dev_open ?L" "\<not> connected ?L" using no by (simp_all add: loop_gave_up_def)
      have q1: "\<not> dev_open (snd (connect st))" "\<not> connected (snd (connect st))"
        "fst (connect st) = None"
        using op by (simp_all add: eq)
      have q2: "\<forall>e \<in> set (after_last_open ?E). \<not> is_config_call e"
        unfolding ev using after_last_open_suffix [OF mid(2), of "?pre @ shape_calls"] mid(1) by blast
      have q3: "\<forall>t. Serial_call (SetTimeout t) \<notin> set ?E"
        unfolding ev using mid(1) by (auto simp: shape_calls_def)
      have q4: "failed_attempts ?E = 5" "after_failures 5 ?E = [?info]"
        using cnt op(1) by (simp_all add: fE aE)
      show ?thesis
        using q1 q2 q3 q4 by simp
    qed
  qed
qed


lemmas eval_defs = connect_def connect_loop.simps RTKNode_def op_defs setter_defs Let_def

lemma connect_good_port:
  "fst (connect (RTKNode 38400 ''X'' good_port)) = None \<and>
   dev_open (snd (connect (RTKNode 38400 ''X'' good_port)))"
  by (simp add: eval_defs good_port_def)

lemma connect_lost_port:
  "failed_attempts (trace (snd (connect (RTKNode 38400 ''X'' lost_port)))) = 5 \<and>
   \<not> dev_open (snd (connect (RTKNode 38400 ''X'' lost_port)))"
  by (simp add: eval_defs lost_port_def failed_attempts_def)

theorem connect_configures_witness:
  "fst (connect (RTKNode 38400 ''X'' good_port)) = None \<and>
   dev_open (snd (connect (RTKNode 38400 ''X'' good_port))) \<and>
   connected (snd (connect (RTKNode 38400 ''X'' good_port))) \<and>
   events_since (RTKNode 38400 ''X'' good_port) (snd (connect (RTKNode 38400 ''X'' good_port))) =
     before_connected (events_since (RTKNode 38400 ''X'' good_port)
        (snd (connect (RTKNode 38400 ''X'' good_port)))) @
       [Assign_connected True, Serial_call (SetTimeout 500)] \<and>
   map_option s_bytesize (serial (snd (connect (RTKNode 38400 ''X'' good_port)))) =
     Some eightbits \<and>
   map_option s_timeout (serial (snd (connect (RTKNode 38400 ''X'' good_port)))) = Some 500 \<and>
   failed_attempts (events_since (RTKNode 38400 ''X'' lost_port)
      (snd (connect (RTKNode 38400 ''X'' lost_port)))) = 5 \<and>
   \<not> connected (snd (connect (RTKNode 38400 ''X'' lost_port))) \<and>
   after_failures 5 (events_since (RTKNode 38400 ''X'' lost_port)
      (snd (connect (RTKNode 38400 ''X'' lost_port)))) =
     [Log INFO [Txt ''Bad Connection with serial port Error '', Txt ''X'']] \<and>
   Serial_call (SetTimeout 500) \<notin> set (events_since (RTKNode 38400 ''X'' lost_port)
      (snd (connect (RTKNode 38400 ''X'' lost_port)))) \<and>
   list_all (\<lambda>e. \<not> is_config_call e)
     (after_last_open (events_since (RTKNode 38400 ''X'' lost_port)
        (snd (connect (RTKNode 38400 ''X'' lost_port)))))"
proof -
  have t: "trace (RTKNode 38400 ''X'' lost_port) = []" "port (RTKNode 38400 ''X'' lost_port) = ''X''"
    by (simp_all add: RTKNode_def)
  have l: "failed_attempts (events_since (RTKNode 38400 ''X'' lost_port)
      (snd (connect (RTKNode 38400 ''X'' lost_port)))) = 5"
    "\<not> dev_open (snd (connect (RTKNode 38400 ''X'' lost_port)))"
    using connect_lost_port by (simp_all add: events_since_def t)
  show ?thesis
    using connect_configures [of "RTKNode 38400 ''X'' good_port"]
      connect_configures [of "RTKNode 38400 ''X'' lost_port"] connect_good_port l
    by (simp add: list_all_iff t)
qed

text \<open>
  The claim as stated has the timeout set before the state is set to
  connected. On a good port, \<^verbatim>\<open>connect\<close> returns with the transport open
  and the state connected, and the timeout call is the last thing it does,
  after the assignment to \<^verbatim>\<open>connected\<close>: it is not among the events before
  the flag is set.
\<close>

theorem connect_sets_connected_before_timeout:
  "fst (connect (RTKNode 115200 ''/dev/ttyACM0'' good_port)) = None \<and>
   dev_open (snd (connect (RTKNode 115200 ''/dev/ttyACM0'' good_port))) \<and>
   connected (snd (connect (RTKNode 115200 ''/dev/ttyACM0'' good_port))) \<and>
   trace (snd (connect (RTKNode 115200 ''/dev/ttyACM0'' good_port))) =
     [Serial_call (SetPort ''/dev/ttyACM0''), Serial_call Open, Serial_call IsOpen,
      Serial_call (SetBaudrate 115200), Serial_call (SetBytesize eightbits),
      Serial_call (SetParity parity_none), Serial_call (SetStopbits stopbits_one),
      Serial_call (SetFlowcontrol flowcontrol_none),
      Log DEBUG [Txt ''Trying to connect to the serial port''], Serial_call Open,
      Log FATAL [Txt ''Other serial port exception''], Serial_call IsOpen,
      Assign_connected True, Serial_call (SetTimeout 500)] \<and>
   Serial_call (SetTimeout 500) \<notin>
     set (before_connected (trace (snd (connect (RTKNode 115200 ''/dev/ttyACM0'' good_port)))))"
  by (simp add: eval_defs good_port_def before_connected_def)

text \<open>
  C1 says that every exception of the transport's \<^verbatim>\<open>open()\<close> is caught and
  counted as a failed attempt, that a failed attempt is followed by the next
  until five have failed, and that no exception leaves \<^verbatim>\<open>connect\<close>. The
  \<^verbatim>\<open>open()\<close> of line 69 stands before the retry loop and outside its
  \<^verbatim>\<open>try\<close> block. On an absent port its \<^verbatim>\<open>IOException\<close> leaves
  \<^verbatim>\<open>connect\<close> after that one call; on a port that stays closed without an
  exception \<^verbatim>\<open>connect\<close> returns after that one call and a warning, and the
  retry loop is never entered.
\<close>

theorem connect_first_open_unguarded:
  "fst (connect (RTKNode 38400 ''X'' absent_port)) = Some IOException \<and>
   trace (snd (connect (RTKNode 38400 ''X'' absent_port))) =
     [Serial_call (SetPort ''X''), Serial_call Open] \<and>
   fst (connect (RTKNode 38400 ''X'' silent_port)) = None \<and>
   trace (snd (connect (RTKNode 38400 ''X'' silent_port))) =
     [Serial_call (SetPort ''X''), Serial_call Open, Serial_call IsOpen,
      Log WARN [Txt ''GPS: Failed to open Serial Device: '', Txt ''X'']]"
  by (simp add: eval_defs absent_port_def silent_port_def)

section \<open>Further properties of the bridge\<close>

lemma open_calls_append: "open_calls (xs @ ys) = open_calls xs + open_calls ys"
  by (induction xs rule: open_calls.induct) simp_all

lemma try_open_open_calls:
  "open_calls (trace (snd (try_open st))) = Suc (open_calls (trace st))"
  by (auto simp: try_open_def op_defs Let_def open_calls_append
      split: open_outcome.splits option.splits exn.splits)

lemma connect_loop_open_calls:
  "open_calls (trace (connect_loop tries st)) \<le> open_calls (trace st) + nat (5 - tries)"
proof (induction "nat (5 - tries)" arbitrary: tries st)
  case 0
  then have "\<not> tries < 5" by simp
  then have "connect_loop tries st = st" by (subst connect_loop_unfold) simp
  then show ?case by simp
next
  case (Suc n)
  then have lt: "tries < 5" by simp
  show ?case
  proof (cases "fst (try_open st)")
    case True
    then have "connect_loop tries st = serial_setTimeout 500 (set_connected True (snd (try_open st)))"
      using lt by (subst connect_loop_unfold) simp
    then have "open_calls (trace (connect_loop tries st)) = Suc (open_calls (trace st))"
      using try_open_open_calls [of st]
      by (simp add: serial_setTimeout_def set_connected_def emit_def with_serial_def
          open_calls_append)
    then show ?thesis using lt by simp
  next
    case False
    define st' where "st' = ros_log INFO [Txt ''Bad Connection with serial port Error '', Txt (port st)]
                   (set_connected False (snd (try_open st)))"
    have eq: "connect_loop tries st = connect_loop (tries + 1) st'"
      using lt False unfolding st'_def by (subst connect_loop_unfold) simp
    have o: "open_calls (trace st') = Suc (open_calls (trace st))"
      using try_open_open_calls [of st]
      by (simp add: st'_def ros_log_def set_connected_def emit_def open_calls_append)
    have "n = nat (5 - (tries + 1))" using Suc(2) by simp
    from Suc(1) [OF this, of st'] show ?thesis using eq o lt by simp
  qed
qed

text \<open>
  One call of \<^verbatim>\<open>connect\<close> calls \<^verbatim>\<open>open()\<close> at least once and at most six
  times: the call of line 69 and at most five in the retry loop.
\<close>

theorem connect_open_calls:
  "Suc (open_calls (trace st)) \<le> open_calls (trace (snd (connect st))) \<and>
   open_calls (trace (snd (connect st))) \<le> open_calls (trace st) + 6"
proof (cases "dev_plan st (dev_opens st)")
  case (Open_throws e b)
  from connect_throws [OF this] show ?thesis by (simp add: open_calls_append)
next
  case (Open_returns b)
  show ?thesis
  proof (cases b)
    case False
    with Open_returns connect_closed [of st] show ?thesis by (simp add: open_calls_append)
  next
    case True
    have eq: "connect st = (None, connect_loop 0 (loop_start st))"
      using Open_returns True by (simp add: connect_opened)
    have c: "open_calls (trace (loop_start st)) = Suc (open_calls (trace st))"
      by (simp add: loop_start_def shape_calls_def open_calls_append)
    have up: "open_calls (trace (connect_loop 0 (loop_start st))) \<le> open_calls (trace (loop_start st)) + 5"
      using connect_loop_open_calls [of 0 "loop_start st"] by simp
    from connect_loop_trace [of 0 "loop_start st"] obtain mid where
      "trace (connect_loop 0 (loop_start st)) = trace (loop_start st) @ mid @
          [Assign_connected True, Serial_call (SetTimeout 500)] \<or>
       trace (connect_loop 0 (loop_start st)) = trace (loop_start st) @ mid"
      by (auto simp: loop_connected_def loop_gave_up_def)
    then have "open_calls (trace (loop_start st)) \<le> open_calls (trace (connect_loop 0 (loop_start st)))"
      by (auto simp: open_calls_append)
    then show ?thesis using up c by (simp add: eq)
  qed
qed

text \<open>
  The scenario of the specification: the port opens, the decoder is
  configured, and \<^verbatim>\<open>receive\<close> returns 1, 0, 3, 0, 0. Five calls are made,
  two position messages and one satellite report leave (after the first and
  the third call), and the loop is still running, its counter at 2.
\<close>

theorem run_loop_scenario:
  "(case run_loop [turn True 1, turn True 0, turn True 3, turn True 0, turn True 0] 0
           (snd (connect (RTKNode 38400 ''X'' good_port))) of
      Finished r \<Rightarrow> False
    | Out_of_script (numTries, st) \<Rightarrow>
        numTries = 2 \<and> receive_calls (trace st) = 5 \<and>
        length (gps_messages (trace st)) = 2 \<and>
        satellite_reports (trace st) = [[Txt ''I see '', Num 0, Txt '' sattelites'']]) \<and>
   (case run_loop [turn True 1, turn True 0] 0 (snd (connect (RTKNode 38400 ''X'' good_port))) of
      Finished r \<Rightarrow> False
    | Out_of_script (numTries, st) \<Rightarrow>
        numTries = 1 \<and> length (gps_messages (trace st)) = 1 \<and> satellite_reports (trace st) = [])"
proof -
  have b: "(1::int) AND 2 = 0" "(3::int) AND 1 = 1" "(3::int) AND 2 = 2"
    by (simp_all add: and_one_eq and_int_unfold)
  show ?thesis
    by (simp add: eval_defs good_port_def turn_def loop_body_def gpsDriver_receive_def b
        publishGPSPosition_def publishGPSSatellite_def NavSatFix_init_def
        gps_messages_append satellite_reports_append receive_calls_append)
qed

text \<open>
  When the configuration of the decoder fails, the loop never starts:
  \<^verbatim>\<open>run\<close> ends without a call of \<^verbatim>\<open>receive\<close>, whatever the script holds.
\<close>

theorem run_not_configured:
  "c \<noteq> 0 \<Longrightarrow>
   run c script st =
     Finished (ros_log WARN [Txt ''End of running''] (emit (Configure (baud st)) st)) \<and>
   receive_calls (events_since st
     (ros_log WARN [Txt ''End of running''] (emit (Configure (baud st)) st))) = 0"
  by (simp add: run_def Let_def ros_log_def emit_def events_since_def)

theorem run_not_configured_witness:
  "run (- 1) [turn True 1] (RTKNode 38400 ''X'' good_port) =
     Finished (ros_log WARN [Txt ''End of running'']
       (emit (Configure 38400) (RTKNode 38400 ''X'' good_port)))"
  using run_not_configured [of "- 1" "[turn True 1]" "RTKNode 38400 ''X'' good_port"]
  by (simp add: RTKNode_def)

text \<open>
  The set-baud-rate callback stores the new rate in the handle and returns 1;
  the set-clock callback and a callback of an unrecognized kind return 0 and
  leave but a log line, of fatal severity for the unrecognized kind.
\<close>

theorem callback_other_kinds:
  "(serial st \<noteq> None \<longrightarrow>
      fst (callback GPSCallbackType_setBaudrate data1 data2 st) = Inr 1 \<and>
      map_option s_baudrate (serial (snd (callback GPSCallbackType_setBaudrate data1 data2 st))) =
        Some (word_of_int data2)) \<and>
   callback GPSCallbackType_setClock data1 data2 st =
     (Inr 0, st\<lparr>trace := trace st @ [Log DEBUG [Txt ''Set clock'']]\<rparr>) \<and>
   callback (GPSCallbackType_other k) data1 data2 st =
     (Inr 0, st\<lparr>trace := trace st @ [Log FATAL [Txt ''Do nothing? '', Num k]]\<rparr>)"
  by (auto simp: callback_def Let_def ros_log_def emit_def serial_setBaudrate_def
      with_serial_def to_uint32_def)

theorem callback_other_kinds_witness:
  "fst (callback GPSCallbackType_setBaudrate 0 115200 write_example) = Inr 1 \<and>
   map_option s_baudrate
     (serial (snd (callback GPSCallbackType_setBaudrate 0 115200 write_example))) = Some 115200"
  using callback_other_kinds [of write_example 0 115200]
  by (simp add: write_example_def)

end
